theory Spec2Isabelle
  imports Complex_Main "HOL-Library.AList"
begin

section \<open>Python values used by the scraper\<close>

text \<open>
  The development embeds the crawl engine of \<^verbatim>\<open>reddit_scraper.py\<close> (class
  \<^verbatim>\<open>RedditSentimentAnalyzer\<close>): the item extractor, the listing extractor,
  the pagination resolver, the loop of \<^verbatim>\<open>scrape_subreddit\<close> and the top-level
  \<^verbatim>\<open>start_analysis\<close>.

  Strings are lists of 8-bit characters: a character is a code point below 256, so
  \<^verbatim>\<open>\d\<close> is one of \<^verbatim>\<open>0\<close> to \<^verbatim>\<open>9\<close>, and case conversion acts on the
  ASCII letters. Python integers are unbounded, but a conversion between a string and
  an integer of more than 4300 digits raises \<^verbatim>\<open>ValueError\<close>, as in CPython from
  version 3.11 on. Python exceptions are values: every
  \<^verbatim>\<open>try\<close>/\<^verbatim>\<open>except\<close> of the source is a case distinction, and an exception
  is an instance of \<^verbatim>\<open>Exception\<close>, which all handlers of the source catch.
  \<^verbatim>\<open>time.sleep\<close> and the calls of the logger have no effect on the state and are
  left out.
\<close>

datatype exn =
    NoSuchElementException
  | TimeoutException
  | KeyError
  | IndexError
  | ValueError
  | WebDriverException

text \<open>The VADER result dictionary \<^verbatim>\<open>{'compound', 'pos', 'neu', 'neg'}\<close>.\<close>

record sentiment =
  compound :: real
  pos :: real
  neu :: real
  neg :: real

definition zero_sentiment :: sentiment where
  "zero_sentiment = \<lparr>compound = 0, pos = 0, neu = 0, neg = 0\<rparr>"

text \<open>Values stored in a \<^verbatim>\<open>post_data\<close> dictionary. A dictionary is kept as
  an association list in insertion order: \<open>map_of d k\<close> looks a key up and
  \<open>AList.update k v d\<close> is \<^verbatim>\<open>d[k] = v\<close>.\<close>

datatype pyval = PStr string | PSent sentiment

type_synonym post = "(string \<times> pyval) list"

subsection \<open>String operations\<close>

definition is_space :: "char \<Rightarrow> bool" where
  "is_space c = (let n = (of_char c :: nat) in
     (9 \<le> n \<and> n \<le> 13) \<or> (28 \<le> n \<and> n \<le> 32) \<or> n = 133 \<or> n = 160)"

definition strip :: "string \<Rightarrow> string" where
  "strip s = rev (dropWhile is_space (rev (dropWhile is_space s)))"

definition startswith :: "string \<Rightarrow> string \<Rightarrow> bool" where
  "startswith s p = (take (length p) s = p)"

text \<open>\<^verbatim>\<open>sub in s\<close>\<close>

fun contains :: "string \<Rightarrow> string \<Rightarrow> bool" where
  "contains [] sub = (sub = [])"
| "contains (c # cs) sub = (startswith (c # cs) sub \<or> contains cs sub)"

text \<open>\<^verbatim>\<open>s.split(sep)\<close> for a non-empty separator; \<open>acc\<close> holds the current
  piece, reversed.\<close>

fun split_acc :: "string \<Rightarrow> string \<Rightarrow> string \<Rightarrow> string list" where
  "split_acc sep acc [] = [rev acc]"
| "split_acc sep acc (c # cs) =
     (if startswith (c # cs) sep
      then rev acc # split_acc sep [] (drop (length sep - 1) cs)
      else split_acc sep (c # acc) cs)"

definition split :: "string \<Rightarrow> string \<Rightarrow> string list" where
  "split s sep = split_acc sep [] s"

definition replace_char :: "char \<Rightarrow> char \<Rightarrow> string \<Rightarrow> string" where
  "replace_char a b s = map (\<lambda>c. if c = a then b else c) s"

definition is_upper :: "char \<Rightarrow> bool" where
  "is_upper c = (65 \<le> (of_char c :: nat) \<and> (of_char c :: nat) \<le> 90)"

definition is_lower :: "char \<Rightarrow> bool" where
  "is_lower c = (97 \<le> (of_char c :: nat) \<and> (of_char c :: nat) \<le> 122)"

definition to_lower :: "char \<Rightarrow> char" where
  "to_lower c = (if is_upper c then char_of ((of_char c :: nat) + 32) else c)"

definition to_upper :: "char \<Rightarrow> char" where
  "to_upper c = (if is_lower c then char_of ((of_char c :: nat) - 32) else c)"

definition lower :: "string \<Rightarrow> string" where
  "lower s = map to_lower s"

text \<open>\<^verbatim>\<open>s.title()\<close>: a letter after a cased letter is lowered, any other
  letter is raised.\<close>

fun title_from :: "bool \<Rightarrow> string \<Rightarrow> string" where
  "title_from prev [] = []"
| "title_from prev (c # cs) =
     (if prev then to_lower c else to_upper c) # title_from (is_upper c \<or> is_lower c) cs"

definition title_case :: "string \<Rightarrow> string" where
  "title_case s = title_from False s"

definition is_digit :: "char \<Rightarrow> bool" where
  "is_digit c = (48 \<le> (of_char c :: nat) \<and> (of_char c :: nat) \<le> 57)"

text \<open>\<^verbatim>\<open>int(digits)\<close> on a string of decimal digits.\<close>

definition int_of_digits :: "string \<Rightarrow> nat" where
  "int_of_digits ds = foldl (\<lambda>n c. 10 * n + ((of_char c :: nat) - 48)) 0 ds"

text \<open>\<^verbatim>\<open>str(n)\<close> for a natural number: \<open>digits_acc\<close> prepends the digits of
  \<open>n\<close> to \<open>acc\<close>; the fuel is never exhausted since \<open>n < 10 ^ Suc n\<close>.\<close>

fun digits_acc :: "nat \<Rightarrow> nat \<Rightarrow> string \<Rightarrow> string" where
  "digits_acc 0 n acc = acc"
| "digits_acc (Suc fuel) n acc =
     (if n < 10 then char_of (48 + n) # acc
      else digits_acc fuel (n div 10) (char_of (48 + n mod 10) # acc))"

definition str_of_nat :: "nat \<Rightarrow> string" where
  "str_of_nat n = digits_acc (Suc n) n []"

definition str_of_int :: "int \<Rightarrow> string" where
  "str_of_int i = (if i < 0 then CHR ''-'' # str_of_nat (nat (- i)) else str_of_nat (nat i))"

text \<open>The conversions as Python makes them: \<^verbatim>\<open>int(digits)\<close> and \<^verbatim>\<open>str(n)\<close>
  raise \<^verbatim>\<open>ValueError\<close> beyond \<^verbatim>\<open>sys.int_max_str_digits\<close> digits; leading zeros
  count.\<close>

definition int_max_str_digits :: nat where
  "int_max_str_digits = 4300"

definition py_int :: "string \<Rightarrow> exn + nat" where
  "py_int digits =
     (if length digits > int_max_str_digits then Inl ValueError else Inr (int_of_digits digits))"

definition py_str :: "nat \<Rightarrow> exn + string" where
  "py_str n =
     (if length (str_of_nat n) > int_max_str_digits then Inl ValueError
      else Inr (str_of_nat n))"

text \<open>\<^verbatim>\<open>list(dict.fromkeys(xs))\<close>: duplicates removed, first occurrences kept
  in order.\<close>

definition dedupe :: "'a list \<Rightarrow> 'a list" where
  "dedupe xs = foldl (\<lambda>acc x. if x \<in> set acc then acc else acc @ [x]) [] xs"

section \<open>Sentiment scoring\<close>

text \<open>
  \<^verbatim>\<open>analyze_sentiment(self, text)\<close> (lines 153--158). The argument is a string or
  \<^verbatim>\<open>None\<close>; the VADER analyzer \<^verbatim>\<open>polarity_scores\<close> is an external function.
\<close>

definition analyze_sentiment :: "(string \<Rightarrow> sentiment) \<Rightarrow> string option \<Rightarrow> sentiment" where
  "analyze_sentiment polarity text =
     (case text of
        None \<Rightarrow> zero_sentiment
      | Some t \<Rightarrow> if t = [] then zero_sentiment else polarity t)"

section \<open>The rendering session and the other external collaborators\<close>

text \<open>
  The Selenium driver, the clock and Python's string hash are outside the program.
  They are operations on an abstract world \<open>'w\<close>: every call may fail with an
  exception and may change the world. Elements are handles of type \<open>'e\<close>.
  \<^verbatim>\<open>execute_script\<close> is split by the kind of value the script returns; the
  scripts of the source are named by a constructor each.
\<close>

datatype script =
    HasPostsScript
  | ScrollByInnerHeight
  | ScrollToTop
  | ScrollBy nat
  | ScrollToBottom
  | PostLinksScript
  | TitleScript
  | AuthorScript
  | DateScript
  | ContentScript
  | VotesScript
  | CommentsScript
  | FindByText string

datatype locator = CSS_SELECTOR | TAG_NAME

record ('w, 'e) env =
  chrome_start :: "'w \<Rightarrow> (exn + unit) \<times> 'w"
  chrome_configure :: "'w \<Rightarrow> (exn + unit) \<times> 'w"
  driver_get :: "string \<Rightarrow> 'w \<Rightarrow> (exn + unit) \<times> 'w"
  driver_current_url :: "'w \<Rightarrow> (exn + string) \<times> 'w"
  driver_quit :: "'w \<Rightarrow> (exn + unit) \<times> 'w"
  wait_until_present :: "string \<Rightarrow> 'w \<Rightarrow> (exn + unit) \<times> 'w"
  find_element :: "string \<Rightarrow> 'w \<Rightarrow> (exn + 'e) \<times> 'w"
  find_elements :: "locator \<Rightarrow> string \<Rightarrow> 'w \<Rightarrow> (exn + 'e list) \<times> 'w"
  element_text :: "'e \<Rightarrow> 'w \<Rightarrow> (exn + string) \<times> 'w"
  element_get_attribute :: "'e \<Rightarrow> string \<Rightarrow> 'w \<Rightarrow> (exn + string option) \<times> 'w"
  element_tag_name :: "'e \<Rightarrow> 'w \<Rightarrow> (exn + string) \<times> 'w"
  element_click :: "'e \<Rightarrow> 'w \<Rightarrow> (exn + unit) \<times> 'w"
  element_parent :: "'e \<Rightarrow> 'w \<Rightarrow> (exn + 'e) \<times> 'w"
  execute_script_unit :: "script \<Rightarrow> 'w \<Rightarrow> (exn + unit) \<times> 'w"
  execute_script_bool :: "script \<Rightarrow> 'w \<Rightarrow> (exn + bool) \<times> 'w"
  execute_script_text :: "script \<Rightarrow> 'w \<Rightarrow> (exn + string option) \<times> 'w"
  execute_script_links :: "script \<Rightarrow> 'w \<Rightarrow> (exn + string list) \<times> 'w"
  execute_script_element :: "script \<Rightarrow> 'w \<Rightarrow> (exn + 'e option) \<times> 'w"
  polarity_scores :: "string \<Rightarrow> sentiment"
  now_isoformat :: "'w \<Rightarrow> string"
  py_hash :: "string \<Rightarrow> int"

section \<open>Strategy resolver: one field from an ordered list of selectors\<close>

text \<open>
  The loop shared by the title, author, subreddit, date and content extractors:
  \<^verbatim>\<open>
  for selector in selectors:
      try:
          element = self.driver.find_element(By.CSS_SELECTOR, selector)
          text = element.text.strip()
          if text:
              return text
      except NoSuchElementException:
          continue
  \<close>
  \<open>Inr (Some t)\<close> is the \<^verbatim>\<open>return\<close>, \<open>Inr None\<close> the end of the loop, \<open>Inl e\<close>
  an exception that leaves the loop.
\<close>

fun first_text :: "('w, 'e) env \<Rightarrow> string list \<Rightarrow> 'w \<Rightarrow> (exn + string option) \<times> 'w" where
  "first_text env [] w = (Inr None, w)"
| "first_text env (selector # rest) w =
     (case find_element env selector w of
        (Inl e, w1) \<Rightarrow>
          if e = NoSuchElementException then first_text env rest w1 else (Inl e, w1)
      | (Inr element, w1) \<Rightarrow>
          (case element_text env element w1 of
             (Inl e, w2) \<Rightarrow>
               if e = NoSuchElementException then first_text env rest w2 else (Inl e, w2)
           | (Inr t, w2) \<Rightarrow>
               if strip t \<noteq> [] then (Inr (Some (strip t)), w2) else first_text env rest w2))"

text \<open>
  The loop of \<^verbatim>\<open>_extract_post_metadata\<close>, which stores the stripped text of the
  first element found, empty or not, and leaves the loop:
  \<^verbatim>\<open>
  for selector in vote_selectors:
      try:
          votes_element = self.driver.find_element(By.CSS_SELECTOR, selector)
          post_data["votes"] = votes_element.text.strip()
          break
      except NoSuchElementException:
          continue
  \<close>
\<close>

fun first_found_text ::
  "('w, 'e) env \<Rightarrow> string list \<Rightarrow> 'w \<Rightarrow> (exn + string option) \<times> 'w" where
  "first_found_text env [] w = (Inr None, w)"
| "first_found_text env (selector # rest) w =
     (case find_element env selector w of
        (Inl e, w1) \<Rightarrow>
          if e = NoSuchElementException then first_found_text env rest w1 else (Inl e, w1)
      | (Inr element, w1) \<Rightarrow>
          (case element_text env element w1 of
             (Inl e, w2) \<Rightarrow>
               if e = NoSuchElementException then first_found_text env rest w2
               else (Inl e, w2)
           | (Inr t, w2) \<Rightarrow> (Inr (Some (strip t)), w2)))"

text \<open>The script fallback: \<^verbatim>\<open>try: v = execute_script(...); if v: return v
  except Exception: pass\<close>. The result is the non-empty text, if any.\<close>

definition script_text :: "('w, 'e) env \<Rightarrow> script \<Rightarrow> 'w \<Rightarrow> string option \<times> 'w" where
  "script_text env sc w =
     (case execute_script_text env sc w of
        (Inl e, w1) \<Rightarrow> (None, w1)
      | (Inr None, w1) \<Rightarrow> (None, w1)
      | (Inr (Some t), w1) \<Rightarrow> if t \<noteq> [] then (Some t, w1) else (None, w1))"

section \<open>Item extractor\<close>

text \<open>\<^verbatim>\<open>_extract_post_id\<close> (lines 456--466).\<close>

definition extract_post_id :: "('w, 'e) env \<Rightarrow> string \<Rightarrow> string" where
  "extract_post_id env url =
     (let parts = split url ''/comments/'' in
      if contains url ''/comments/'' \<and> length parts > 1
      then hd (split (parts ! 1) ''/'')
      else str_of_int (py_hash env url mod 10000))"

text \<open>\<^verbatim>\<open>_extract_post_title\<close> (lines 551--605). The last resort reads the title
  off the URL.\<close>

definition title_selectors :: "string list" where
  "title_selectors = [''h1'', ''h1[slot='title']'', ''.title a'', ''[data-testid='post-title']'']"

definition title_from_url :: "string \<Rightarrow> string \<Rightarrow> string" where
  "title_from_url post_url post_id =
     (let url_parts = split post_url ''/'' in
      if length url_parts > 1
      then (let potential_title =
                  (if last url_parts = [] then url_parts ! (length url_parts - 2)
                   else last url_parts)
            in title_case (replace_char CHR ''-'' CHR '' '' (replace_char CHR ''_'' CHR '' '' potential_title)))
      else ''Post '' @ post_id)"

definition extract_post_title ::
  "('w, 'e) env \<Rightarrow> string \<Rightarrow> string \<Rightarrow> 'w \<Rightarrow> string \<times> 'w" where
  "extract_post_title env post_url post_id w =
     (case first_text env title_selectors w of
        (Inl e, w1) \<Rightarrow> (''Post '' @ post_id, w1)
      | (Inr (Some t), w1) \<Rightarrow> (t, w1)
      | (Inr None, w1) \<Rightarrow>
          (case script_text env TitleScript w1 of
             (Some t, w2) \<Rightarrow> (t, w2)
           | (None, w2) \<Rightarrow> (title_from_url post_url post_id, w2)))"

text \<open>\<^verbatim>\<open>_extract_post_author\<close> (lines 607--656).\<close>

definition author_selectors :: "string list" where
  "author_selectors =
     [''a[data-testid='post_author']'', ''a[slot='author']'', ''.author'', ''a.author'']"

definition extract_post_author :: "('w, 'e) env \<Rightarrow> 'w \<Rightarrow> string \<times> 'w" where
  "extract_post_author env w =
     (case first_text env author_selectors w of
        (Inl e, w1) \<Rightarrow> (''Unknown'', w1)
      | (Inr (Some t), w1) \<Rightarrow> (t, w1)
      | (Inr None, w1) \<Rightarrow>
          (case script_text env AuthorScript w1 of
             (Some t, w2) \<Rightarrow> (t, w2)
           | (None, w2) \<Rightarrow> (''Unknown'', w2)))"

text \<open>\<^verbatim>\<open>_extract_post_subreddit\<close> (lines 658--686). \<open>search_subreddit\<close> is
  \<^verbatim>\<open>re.search(r"/r/([^/]+)", post_url)\<close>: the leftmost \<^verbatim>\<open>/r/\<close> followed by a
  character other than \<^verbatim>\<open>/\<close>, and the longest run of such characters.\<close>

fun search_subreddit :: "string \<Rightarrow> string option" where
  "search_subreddit [] = None"
| "search_subreddit (c # cs) =
     (if startswith (c # cs) ''/r/'' \<and> takeWhile (\<lambda>x. x \<noteq> CHR ''/'') (drop 2 cs) \<noteq> []
      then Some (takeWhile (\<lambda>x. x \<noteq> CHR ''/'') (drop 2 cs))
      else search_subreddit cs)"

definition subreddit_selectors :: "string list" where
  "subreddit_selectors =
     [''a[data-testid='subreddit-link']'', ''a[slot='subreddit-name']'', ''.subreddit'',
      ''a.subreddit'']"

definition extract_post_subreddit :: "('w, 'e) env \<Rightarrow> string \<Rightarrow> 'w \<Rightarrow> string \<times> 'w" where
  "extract_post_subreddit env post_url w =
     (case first_text env subreddit_selectors w of
        (Inl e, w1) \<Rightarrow> (''Unknown Subreddit'', w1)
      | (Inr (Some t), w1) \<Rightarrow> (t, w1)
      | (Inr None, w1) \<Rightarrow>
          (if contains post_url ''/r/''
           then (case search_subreddit post_url of
                   Some name \<Rightarrow> (''r/'' @ name, w1)
                 | None \<Rightarrow> (''Unknown Subreddit'', w1))
           else (''Unknown Subreddit'', w1)))"

text \<open>\<^verbatim>\<open>_extract_post_date\<close> (lines 688--737).\<close>

definition date_selectors :: "string list" where
  "date_selectors =
     [''span[data-testid='post_timestamp']'', ''span[slot='posted-time']'', ''time'',
      ''.tagline time'']"

definition extract_post_date :: "('w, 'e) env \<Rightarrow> 'w \<Rightarrow> string \<times> 'w" where
  "extract_post_date env w =
     (case first_text env date_selectors w of
        (Inl e, w1) \<Rightarrow> (''Unknown Date'', w1)
      | (Inr (Some t), w1) \<Rightarrow> (t, w1)
      | (Inr None, w1) \<Rightarrow>
          (case script_text env DateScript w1 of
             (Some t, w2) \<Rightarrow> (t, w2)
           | (None, w2) \<Rightarrow> (''Unknown Date'', w2)))"

text \<open>\<^verbatim>\<open>_is_in_ui_area\<close> (lines 899--927): up to five ancestors are inspected; the
  bare \<^verbatim>\<open>except\<close> turns every failure into \<^verbatim>\<open>False\<close>.\<close>

definition ui_indicators :: "string list" where
  "ui_indicators =
     [''header'', ''footer'', ''sidebar'', ''navigation'', ''nav'', ''menu'', ''comment'',
      ''toolbar'', ''banner'', ''ad'', ''widget'', ''modal'', ''popup'', ''overlay'',
      ''tooltip'', ''community-widget'']"

definition or_empty :: "string option \<Rightarrow> string" where
  "or_empty v = (case v of None \<Rightarrow> [] | Some t \<Rightarrow> t)"

fun ui_area_levels :: "('w, 'e) env \<Rightarrow> nat \<Rightarrow> 'e \<Rightarrow> 'w \<Rightarrow> bool \<times> 'w" where
  "ui_area_levels env 0 parent w = (False, w)"
| "ui_area_levels env (Suc n) parent w =
     (case element_get_attribute env parent ''class'' w of
        (Inl e, w1) \<Rightarrow> (False, w1)
      | (Inr c, w1) \<Rightarrow>
          (case element_get_attribute env parent ''id'' w1 of
             (Inl e, w2) \<Rightarrow> (False, w2)
           | (Inr i, w2) \<Rightarrow>
               if list_ex (\<lambda>indicator. contains (lower (or_empty c)) indicator
                                      \<or> contains (lower (or_empty i)) indicator) ui_indicators
               then (True, w2)
               else (case element_parent env parent w2 of
                       (Inl e, w3) \<Rightarrow> (False, w3)
                     | (Inr p, w3) \<Rightarrow> ui_area_levels env n p w3)))"

definition is_in_ui_area :: "('w, 'e) env \<Rightarrow> 'e \<Rightarrow> 'w \<Rightarrow> bool \<times> 'w" where
  "is_in_ui_area env element w = ui_area_levels env 5 element w"

text \<open>\<^verbatim>\<open>_extract_post_text_content\<close> (lines 739--814). The paragraph loop reads
  \<^verbatim>\<open>p.text\<close> once for the length test and once more for the value.\<close>

definition content_selectors :: "string list" where
  "content_selectors =
     [''div[data-test-id='post-content']'', ''div[slot='text-body']'', ''[data-click-id='text']'',
      ''div.md'', ''.sitetable .usertext-body'']"

fun content_paragraphs ::
  "('w, 'e) env \<Rightarrow> 'e list \<Rightarrow> string list \<Rightarrow> 'w \<Rightarrow> (exn + string list) \<times> 'w" where
  "content_paragraphs env [] acc w = (Inr acc, w)"
| "content_paragraphs env (p # ps) acc w =
     (case element_text env p w of
        (Inl e, w1) \<Rightarrow> (Inl e, w1)
      | (Inr t, w1) \<Rightarrow>
          if length (strip t) < 20 then content_paragraphs env ps acc w1
          else (case is_in_ui_area env p w1 of
                  (True, w2) \<Rightarrow> content_paragraphs env ps acc w2
                | (False, w2) \<Rightarrow>
                    (case element_text env p w2 of
                       (Inl e, w3) \<Rightarrow> (Inl e, w3)
                     | (Inr t2, w3) \<Rightarrow> content_paragraphs env ps (acc @ [strip t2]) w3)))"

text \<open>\<^verbatim>\<open>sep.join(xs)\<close>\<close>

fun join :: "string \<Rightarrow> string list \<Rightarrow> string" where
  "join sep [] = []"
| "join sep [x] = x"
| "join sep (x # y # ys) = x @ sep @ join sep (y # ys)"

definition extract_post_text_content :: "('w, 'e) env \<Rightarrow> 'w \<Rightarrow> string \<times> 'w" where
  "extract_post_text_content env w =
     (case first_text env content_selectors w of
        (Inl e, w1) \<Rightarrow> ([], w1)
      | (Inr (Some t), w1) \<Rightarrow> (t, w1)
      | (Inr None, w1) \<Rightarrow>
          (case script_text env ContentScript w1 of
             (Some t, w2) \<Rightarrow> (t, w2)
           | (None, w2) \<Rightarrow>
               (case find_elements env TAG_NAME ''p'' w2 of
                  (Inl e, w3) \<Rightarrow> ([], w3)
                | (Inr paragraphs, w3) \<Rightarrow>
                    (case content_paragraphs env paragraphs [] w3 of
                       (Inl e, w4) \<Rightarrow> ([], w4)
                     | (Inr ps, w4) \<Rightarrow>
                         if ps \<noteq> [] then (join [CHR 0x0A, CHR 0x0A] ps, w4) else ([], w4)))))"

text \<open>
  \<^verbatim>\<open>_extract_post_metadata(self, post_data)\<close> (lines 816--897) updates the
  dictionary in place. A key is written only where an element was found or the script
  returned a non-empty text; an exception other than \<^verbatim>\<open>NoSuchElementException\<close>
  in a selector loop ends the function with what was written so far.
\<close>

definition vote_selectors :: "string list" where
  "vote_selectors =
     [''div[id^='vote-arrows-']'', ''faceplate-number[slot='upvote-count']'', ''.score.unvoted'',
      ''.score'']"

definition comment_selectors :: "string list" where
  "comment_selectors =
     [''span[data-click-id='comments']'', ''span[slot='comment-count']'', ''.comments'',
      ''a.comments'']"

definition extract_field ::
  "('w, 'e) env \<Rightarrow> string \<Rightarrow> string list \<Rightarrow> script \<Rightarrow> post \<Rightarrow> 'w \<Rightarrow> (exn + post) \<times> 'w" where
  "extract_field env key selectors sc post_data w =
     (case first_found_text env selectors w of
        (Inl e, w1) \<Rightarrow> (Inl e, w1)
      | (Inr found, w1) \<Rightarrow>
          (let post_data1 = (case found of
                               Some t \<Rightarrow> AList.update key (PStr t) post_data
                             | None \<Rightarrow> post_data)
           in if map_of post_data1 key = None
              then (case script_text env sc w1 of
                      (Some t, w2) \<Rightarrow> (Inr (AList.update key (PStr t) post_data1), w2)
                    | (None, w2) \<Rightarrow> (Inr post_data1, w2))
              else (Inr post_data1, w1)))"

definition extract_post_metadata :: "('w, 'e) env \<Rightarrow> post \<Rightarrow> 'w \<Rightarrow> post \<times> 'w" where
  "extract_post_metadata env post_data w =
     (case extract_field env ''votes'' vote_selectors VotesScript post_data w of
        (Inl e, w1) \<Rightarrow> (post_data, w1)
      | (Inr post_data1, w1) \<Rightarrow>
          (case extract_field env ''comments_count'' comment_selectors CommentsScript
                  post_data1 w1 of
             (Inl e, w2) \<Rightarrow> (post_data1, w2)
           | (Inr post_data2, w2) \<Rightarrow> (post_data2, w2)))"

section \<open>Crawl state\<close>

text \<open>
  The attributes of the analyzer object that change during a run (lines 96--101):
  \<^verbatim>\<open>driver\<close> (here: whether it is set), \<^verbatim>\<open>all_posts\<close> (a dictionary in
  insertion order, kept as an association list), \<^verbatim>\<open>visited_urls\<close> and
  \<^verbatim>\<open>post_count\<close>, together with the world the driver acts on. \<open>trace\<close> is
  not an attribute of the object: it logs, newest first, the actions the properties
  below speak about. \<open>Added\<close> is a call of \<^verbatim>\<open>visited_urls.add\<close>,
  \<open>Navigated\<close> a call of \<^verbatim>\<open>driver.get\<close>, \<open>Resolved\<close> a call of the pagination
  resolver with its result, \<open>Saved\<close> a call of \<^verbatim>\<open>_save_to_json\<close>. The clicks of
  the pagination resolver, which load pages too, are not logged: they act on the world
  only.
\<close>

datatype payload = PostList "post list" | AllPosts "(string \<times> post list) list"

datatype event =
    Added string
  | Navigated string
  | Resolved "string option"
  | Saved string payload
  | Analyzed
  | Quit

record 'w analyzer =
  driver :: bool
  world :: 'w
  all_posts :: "(string \<times> post list) list"
  visited_urls :: "string set"
  post_count :: "string \<rightharpoonup> int"
  trace :: "event list"

text \<open>The configuration read in \<^verbatim>\<open>__init__\<close> (lines 75--90).\<close>

record config =
  languages :: "string list"
  max_pages :: int
  max_posts :: int
  output_dir :: string

text \<open>\<^verbatim>\<open>_save_to_json\<close> (lines 1025--1033) catches every error of the write.\<close>

definition save_to_json :: "payload \<Rightarrow> string \<Rightarrow> 'w analyzer \<Rightarrow> 'w analyzer" where
  "save_to_json data filepath s = s\<lparr>trace := Saved filepath data # trace s\<rparr>"

text \<open>The wait loops of lines 260--269 and 492--501: the first selector that becomes
  present ends the loop; a timeout tries the next one; any other exception leaves.\<close>

fun wait_for_any :: "('w, 'e) env \<Rightarrow> string list \<Rightarrow> 'w \<Rightarrow> (exn + bool) \<times> 'w" where
  "wait_for_any env [] w = (Inr False, w)"
| "wait_for_any env (selector # rest) w =
     (case wait_until_present env selector w of
        (Inl e, w1) \<Rightarrow> if e = TimeoutException then wait_for_any env rest w1 else (Inl e, w1)
      | (Inr u, w1) \<Rightarrow> (Inr True, w1))"

text \<open>\<^verbatim>\<open>_extract_post_content\<close> (lines 468--549).\<close>

definition post_content_selectors :: "string list" where
  "post_content_selectors =
     [''div[data-testid='post-content']'', ''div[slot='text-body']'', ''[data-click-id='text']'',
      ''div.md'', ''.sitetable .usertext-body'', ''div[data-test-id='post-content']'']"

definition get_text :: "post \<Rightarrow> string \<Rightarrow> string" where
  "get_text post_data key = (case map_of post_data key of Some (PStr t) \<Rightarrow> t | _ \<Rightarrow> [])"

definition with_sentiment :: "('w, 'e) env \<Rightarrow> post \<Rightarrow> post" where
  "with_sentiment env post_data =
     (if get_text post_data ''content'' \<noteq> []
      then AList.update ''sentiment''
             (PSent (analyze_sentiment (polarity_scores env) (Some (get_text post_data ''content''))))
             post_data
      else if get_text post_data ''title'' \<noteq> []
      then AList.update ''sentiment''
             (PSent (analyze_sentiment (polarity_scores env) (Some (get_text post_data ''title''))))
             post_data
      else AList.update ''sentiment'' (PSent zero_sentiment) post_data)"

definition fill_post_data ::
  "('w, 'e) env \<Rightarrow> string \<Rightarrow> string \<Rightarrow> 'w \<Rightarrow> post \<times> 'w" where
  "fill_post_data env post_url language w =
     (let post_id = extract_post_id env post_url;
          post_data = [(''post_id'', PStr post_id), (''post_url'', PStr post_url),
                       (''language'', PStr language),
                       (''scraped_at'', PStr (now_isoformat env w))];
          (title, w1) = extract_post_title env post_url post_id w;
          (author, w2) = extract_post_author env w1;
          (subreddit, w3) = extract_post_subreddit env post_url w2;
          (post_date, w4) = extract_post_date env w3;
          (content, w5) = extract_post_text_content env w4;
          (post_data1, w6) = extract_post_metadata env
             (AList.update ''content'' (PStr content)
               (AList.update ''post_date'' (PStr post_date)
                 (AList.update ''subreddit'' (PStr subreddit)
                   (AList.update ''author'' (PStr author)
                     (AList.update ''title'' (PStr title) post_data))))) w5
      in (with_sentiment env post_data1, w6))"

definition extract_post_content ::
  "('w, 'e) env \<Rightarrow> string \<Rightarrow> string \<Rightarrow> 'w analyzer \<Rightarrow> post option \<times> 'w analyzer" where
  "extract_post_content env post_url language s =
     (if post_url \<in> visited_urls s then (None, s)
      else
        (let s1 = s\<lparr>visited_urls := insert post_url (visited_urls s),
                     trace := Navigated post_url # Added post_url # trace s\<rparr>
         in case driver_get env post_url (world s1) of
              (Inl e, w1) \<Rightarrow> (None, s1\<lparr>world := w1\<rparr>)
            | (Inr u, w1) \<Rightarrow>
                (case wait_for_any env post_content_selectors w1 of
                   (Inl e, w2) \<Rightarrow> (None, s1\<lparr>world := w2\<rparr>)
                 | (Inr found_content, w2) \<Rightarrow>
                     (case fill_post_data env post_url language w2 of
                        (post_data, w3) \<Rightarrow> (Some post_data, s1\<lparr>world := w3\<rparr>)))))"

section \<open>Listing extractor\<close>

text \<open>\<^verbatim>\<open>_is_valid_post_link\<close> (lines 448--454); the argument may be
  \<^verbatim>\<open>None\<close>.\<close>

definition is_valid_post_link :: "string option \<Rightarrow> bool" where
  "is_valid_post_link url =
     (case url of
        None \<Rightarrow> False
      | Some u \<Rightarrow> u \<noteq> [] \<and> contains u ''/comments/'' \<and> contains u ''reddit.com/r/'')"

definition valid_links :: "string option list \<Rightarrow> string list" where
  "valid_links found = concat (map (\<lambda>l. if is_valid_post_link l then [or_empty l] else []) found)"

text \<open>\<^verbatim>\<open>[link.get_attribute('href') for link in links if link.get_attribute('href')]\<close>:
  the attribute is read twice for each link that has one.\<close>

fun found_links ::
  "('w, 'e) env \<Rightarrow> 'e list \<Rightarrow> 'w \<Rightarrow> (exn + string option list) \<times> 'w" where
  "found_links env [] w = (Inr [], w)"
| "found_links env (link # links) w =
     (case element_get_attribute env link ''href'' w of
        (Inl e, w1) \<Rightarrow> (Inl e, w1)
      | (Inr h, w1) \<Rightarrow>
          if or_empty h = [] then found_links env links w1
          else (case element_get_attribute env link ''href'' w1 of
                  (Inl e, w2) \<Rightarrow> (Inl e, w2)
                | (Inr h2, w2) \<Rightarrow>
                    (case found_links env links w2 of
                       (Inl e, w3) \<Rightarrow> (Inl e, w3)
                     | (Inr hs, w3) \<Rightarrow> (Inr (h2 # hs), w3))))"

definition link_selectors :: "string list" where
  "link_selectors =
     [''a[data-click-id='body']'', ''a.title'', ''a[data-testid='post-title']'',
      ''shreddit-post a[slot='full-post-link']'', ''div.thing a.title'']"

fun links_by_selectors ::
  "('w, 'e) env \<Rightarrow> string list \<Rightarrow> string list \<Rightarrow> 'w \<Rightarrow> string list \<times> 'w" where
  "links_by_selectors env [] post_links w = (post_links, w)"
| "links_by_selectors env (selector # rest) post_links w =
     (case find_elements env CSS_SELECTOR selector w of
        (Inl e, w1) \<Rightarrow> links_by_selectors env rest post_links w1
      | (Inr links, w1) \<Rightarrow>
          if List.null links then links_by_selectors env rest post_links w1
          else (case found_links env links w1 of
                  (Inl e, w2) \<Rightarrow> links_by_selectors env rest post_links w2
                | (Inr found, w2) \<Rightarrow>
                    links_by_selectors env rest (post_links @ valid_links found) w2))"

text \<open>\<^verbatim>\<open>_extract_post_links\<close> (lines 381--446).\<close>

definition extract_post_links :: "('w, 'e) env \<Rightarrow> 'w \<Rightarrow> string list \<times> 'w" where
  "extract_post_links env w =
     (case links_by_selectors env link_selectors [] w of
        (post_links, w1) \<Rightarrow>
          if post_links = []
          then (case execute_script_links env PostLinksScript w1 of
                  (Inl e, w2) \<Rightarrow> (dedupe post_links, w2)
                | (Inr js_links, w2) \<Rightarrow>
                    (dedupe (post_links @ valid_links (map Some js_links)), w2))
          else (dedupe post_links, w1))"

section \<open>Pagination resolver\<close>

text \<open>
  \<^verbatim>\<open>_find_next_page_or_load_more\<close> (lines 929--1023), one definition for each of
  its four methods. A method yields \<open>Some r\<close> when it reaches a \<^verbatim>\<open>return r\<close> and
  \<open>None\<close> when control falls through to the next method.
\<close>

definition next_button_selectors :: "string list" where
  "next_button_selectors =
     [''button[aria-label='Next']'', ''a.next-button'', ''span.next-button a'', ''a[rel='next']'',
      ''.nav-buttons .next-button a'', ''a.next'']"

text \<open>Method 1 (lines 942--963). Every exception moves on to the next selector. A
  link is answered with its \<^verbatim>\<open>href\<close> attribute, which is \<^verbatim>\<open>None\<close> when the
  link has none.\<close>

fun next_button ::
  "('w, 'e) env \<Rightarrow> string list \<Rightarrow> 'w \<Rightarrow> string option option \<times> 'w" where
  "next_button env [] w = (None, w)"
| "next_button env (selector # rest) w =
     (case find_element env selector w of
        (Inl e, w1) \<Rightarrow> next_button env rest w1
      | (Inr button, w1) \<Rightarrow>
          (case element_get_attribute env button ''disabled'' w1 of
             (Inl e, w2) \<Rightarrow> next_button env rest w2
           | (Inr disabled, w2) \<Rightarrow>
               if disabled = Some ''true'' then next_button env rest w2
               else
                 (case element_tag_name env button w2 of
                    (Inl e, w3) \<Rightarrow> next_button env rest w3
                  | (Inr tag, w3) \<Rightarrow>
                      if lower tag = ''a''
                      then (case element_get_attribute env button ''href'' w3 of
                              (Inl e, w4) \<Rightarrow> next_button env rest w4
                            | (Inr href, w4) \<Rightarrow> (Some href, w4))
                      else (case element_click env button w3 of
                              (Inl e, w4) \<Rightarrow> next_button env rest w4
                            | (Inr u, w4) \<Rightarrow>
                                (case driver_current_url env w4 of
                                   (Inl e, w5) \<Rightarrow> next_button env rest w5
                                 | (Inr url, w5) \<Rightarrow> (Some (Some url), w5))))))"

text \<open>Method 2 (lines 966--993). A \<^verbatim>\<open>:contains('...')\<close> selector is looked up by
  a script that searches buttons and links for the quoted text.\<close>

definition load_more_selectors :: "string list" where
  "load_more_selectors =
     [''button:contains('Load more')'', ''button.MoreCommentsLink'', ''a:contains('load more')'',
      ''button[data-click-id='load-more']'', ''button.button:contains('More')'']"

definition contains_text :: "string \<Rightarrow> string option" where
  "contains_text selector =
     (let parts = split selector ('':contains('' @ [CHR 0x27]) in
      if length parts > 1 then Some (hd (split (parts ! 1) [CHR 0x27, CHR '')''])) else None)"

definition find_load_more :: "('w, 'e) env \<Rightarrow> string \<Rightarrow> 'w \<Rightarrow> (exn + 'e option) \<times> 'w" where
  "find_load_more env selector w =
     (if contains selector '':contains''
      then (case contains_text selector of
              None \<Rightarrow> (Inl IndexError, w)
            | Some t \<Rightarrow> execute_script_element env (FindByText t) w)
      else (case find_element env selector w of
              (Inl e, w1) \<Rightarrow> (Inl e, w1)
            | (Inr element, w1) \<Rightarrow> (Inr (Some element), w1)))"

fun load_more :: "('w, 'e) env \<Rightarrow> string list \<Rightarrow> 'w \<Rightarrow> string option \<times> 'w" where
  "load_more env [] w = (None, w)"
| "load_more env (selector # rest) w =
     (case find_load_more env selector w of
        (Inl e, w1) \<Rightarrow> load_more env rest w1
      | (Inr None, w1) \<Rightarrow> load_more env rest w1
      | (Inr (Some element), w1) \<Rightarrow>
          (case element_click env element w1 of
             (Inl e, w2) \<Rightarrow> load_more env rest w2
           | (Inr u, w2) \<Rightarrow>
               (case driver_current_url env w2 of
                  (Inl e, w3) \<Rightarrow> load_more env rest w3
                | (Inr url, w3) \<Rightarrow> (Some url, w3))))"

text \<open>Method 3 (lines 996--1006): the number of posts before and after scrolling to
  the bottom.\<close>

definition post_container_selector :: string where
  "post_container_selector = ''div[data-testid='post-container'], shreddit-post, div.thing''"

definition infinite_scroll :: "('w, 'e) env \<Rightarrow> 'w \<Rightarrow> string option \<times> 'w" where
  "infinite_scroll env w =
     (case find_elements env CSS_SELECTOR post_container_selector w of
        (Inl e, w1) \<Rightarrow> (None, w1)
      | (Inr old_content, w1) \<Rightarrow>
          (case execute_script_unit env ScrollToBottom w1 of
             (Inl e, w2) \<Rightarrow> (None, w2)
           | (Inr u, w2) \<Rightarrow>
               (case find_elements env CSS_SELECTOR post_container_selector w2 of
                  (Inl e, w3) \<Rightarrow> (None, w3)
                | (Inr new_content, w3) \<Rightarrow>
                    if length new_content > length old_content
                    then (case driver_current_url env w3 of
                            (Inl e, w4) \<Rightarrow> (None, w4)
                          | (Inr url, w4) \<Rightarrow> (Some url, w4))
                    else (None, w3))))"

text \<open>
  Method 4 (lines 1009--1019). \<open>search_page\<close> is
  \<^verbatim>\<open>re.search(r'page=(\d+)', current_url)\<close> and yields the digits of the leftmost
  match; \<open>sub_page\<close> is \<^verbatim>\<open>re.sub(r'page=\d+', repl, current_url)\<close>, which
  replaces every match. An exception of \<^verbatim>\<open>driver.current_url\<close>, of
  \<^verbatim>\<open>int(...)\<close> or of the formatting of \<^verbatim>\<open>next_page\<close> reaches the handler of
  line 1021, which returns \<^verbatim>\<open>None\<close>.
\<close>

fun search_page :: "string \<Rightarrow> string option" where
  "search_page [] = None"
| "search_page (c # cs) =
     (if startswith (c # cs) ''page='' \<and> takeWhile is_digit (drop 4 cs) \<noteq> []
      then Some (takeWhile is_digit (drop 4 cs))
      else search_page cs)"

function sub_page :: "string \<Rightarrow> string \<Rightarrow> string" where
  "sub_page repl [] = []"
| "sub_page repl (c # cs) =
     (if startswith (c # cs) ''page='' \<and> takeWhile is_digit (drop 4 cs) \<noteq> []
      then repl @ sub_page repl (dropWhile is_digit (drop 4 cs))
      else c # sub_page repl cs)"
  by pat_completeness auto
termination
proof (relation "measure (\<lambda>(repl, s). length s)")
  fix repl :: string and c :: char and cs :: string
  have "length (dropWhile is_digit (drop 4 cs)) \<le> length (drop 4 cs)"
    by (rule length_dropWhile_le)
  then show "((repl, dropWhile is_digit (drop 4 cs)), (repl, c # cs))
               \<in> measure (\<lambda>(repl, s). length s)"
    by simp
qed simp_all

definition next_page_url :: "string \<Rightarrow> exn + string" where
  "next_page_url current_url =
     (case search_page current_url of
        Some digits \<Rightarrow>
          (case py_int digits of
             Inl e \<Rightarrow> Inl e
           | Inr current_page \<Rightarrow>
               (case py_str (current_page + 1) of
                  Inl e \<Rightarrow> Inl e
                | Inr next_page \<Rightarrow> Inr (sub_page (''page='' @ next_page) current_url)))
      | None \<Rightarrow>
          if CHR ''?'' \<in> set current_url then Inr (current_url @ ''&page=2'')
          else Inr (current_url @ ''?page=2''))"

definition url_increment :: "('w, 'e) env \<Rightarrow> 'w \<Rightarrow> string option \<times> 'w" where
  "url_increment env w =
     (case driver_current_url env w of
        (Inl e, w1) \<Rightarrow> (None, w1)
      | (Inr current_url, w1) \<Rightarrow>
          (case next_page_url current_url of
             Inl e \<Rightarrow> (None, w1)
           | Inr next_url \<Rightarrow> (Some next_url, w1)))"

definition find_next_page_or_load_more :: "('w, 'e) env \<Rightarrow> 'w \<Rightarrow> string option \<times> 'w" where
  "find_next_page_or_load_more env w =
     (case next_button env next_button_selectors w of
        (Some r, w1) \<Rightarrow> (r, w1)
      | (None, w1) \<Rightarrow>
          (case load_more env load_more_selectors w1 of
             (Some url, w2) \<Rightarrow> (Some url, w2)
           | (None, w2) \<Rightarrow>
               (case infinite_scroll env w2 of
                  (Some url, w3) \<Rightarrow> (Some url, w3)
                | (None, w3) \<Rightarrow> url_increment env w3)))"

section \<open>Crawl orchestrator\<close>

text \<open>The listing part of one pass of the loop of \<^verbatim>\<open>scrape_subreddit\<close>: post
  detection (lines 249--307), scrolling (lines 311--313) and link extraction with
  one retry (lines 316--334). \<open>None\<close> is a \<^verbatim>\<open>break\<close>, by a failed detection
  or by an exception caught at line 377.\<close>

definition post_selectors :: "string list" where
  "post_selectors =
     [''div[data-testid='post-container']'', ''div.thing'', ''div.Post'', ''shreddit-post'',
      ''[data-click-id='body']'']"

definition detect_posts :: "('w, 'e) env \<Rightarrow> 'w \<Rightarrow> (exn + bool) \<times> 'w" where
  "detect_posts env w =
     (case wait_for_any env post_selectors w of
        (Inl e, w1) \<Rightarrow> (Inl e, w1)
      | (Inr True, w1) \<Rightarrow> (Inr True, w1)
      | (Inr False, w1) \<Rightarrow>
          (case (case execute_script_bool env HasPostsScript w1 of
                   (Inl e, w2) \<Rightarrow> (False, w2)
                 | (Inr has_posts, w2) \<Rightarrow> (has_posts, w2)) of
             (True, w2) \<Rightarrow> (Inr True, w2)
           | (False, w2) \<Rightarrow>
               (case find_elements env TAG_NAME ''h3'' w2 of
                  (Inl e, w3) \<Rightarrow> (Inr False, w3)
                | (Inr h3_elements, w3) \<Rightarrow> (Inr (length h3_elements > 3), w3))))"

fun run_scripts :: "('w, 'e) env \<Rightarrow> script list \<Rightarrow> 'w \<Rightarrow> (exn + unit) \<times> 'w" where
  "run_scripts env [] w = (Inr (), w)"
| "run_scripts env (sc # rest) w =
     (case execute_script_unit env sc w of
        (Inl e, w1) \<Rightarrow> (Inl e, w1)
      | (Inr u, w1) \<Rightarrow> run_scripts env rest w1)"

definition find_post_links :: "('w, 'e) env \<Rightarrow> 'w \<Rightarrow> (exn + string list) \<times> 'w" where
  "find_post_links env w =
     (case extract_post_links env w of
        (post_links, w1) \<Rightarrow>
          if post_links = []
          then (case run_scripts env
                       (ScrollToTop # map (\<lambda>i. ScrollBy (300 * (i + 1))) [0..<5]) w1 of
                  (Inl e, w2) \<Rightarrow> (Inl e, w2)
                | (Inr u, w2) \<Rightarrow>
                    (case extract_post_links env w2 of
                       (post_links2, w3) \<Rightarrow> (Inr post_links2, w3)))
          else (Inr post_links, w1))"

definition load_listing :: "('w, 'e) env \<Rightarrow> string \<Rightarrow> 'w \<Rightarrow> string list option \<times> 'w" where
  "load_listing env current_url w =
     (case driver_get env current_url w of
        (Inl e, w1) \<Rightarrow> (None, w1)
      | (Inr u, w1) \<Rightarrow>
          (case detect_posts env w1 of
             (Inl e, w2) \<Rightarrow> (None, w2)
           | (Inr False, w2) \<Rightarrow> (None, w2)
           | (Inr True, w2) \<Rightarrow>
               (case run_scripts env (replicate 3 ScrollByInnerHeight) w2 of
                  (Inl e, w3) \<Rightarrow> (None, w3)
                | (Inr u, w3) \<Rightarrow>
                    (case find_post_links env w3 of
                       (Inl e, w4) \<Rightarrow> (None, w4)
                     | (Inr post_links, w4) \<Rightarrow>
                         if post_links = [] then (None, w4) else (Some post_links, w4)))))"

text \<open>The body of the loop over \<^verbatim>\<open>post_links\<close> (lines 350--365). A missing
  dictionary key raises \<^verbatim>\<open>KeyError\<close> inside the \<^verbatim>\<open>try\<close>, which logs it.\<close>

definition batch_file :: "config \<Rightarrow> string \<Rightarrow> int \<Rightarrow> string" where
  "batch_file cfg language n =
     output_dir cfg @ ''/'' @ language @ ''_posts_batch_'' @ str_of_int n @ ''.json''"

definition process_post ::
  "('w, 'e) env \<Rightarrow> config \<Rightarrow> string \<Rightarrow> string \<Rightarrow> 'w analyzer \<Rightarrow> 'w analyzer" where
  "process_post env cfg language post_url s =
     (case extract_post_content env post_url language s of
        (None, s1) \<Rightarrow> s1
      | (Some post_data, s1) \<Rightarrow>
          if post_data = [] then s1
          else
            (case map_of (all_posts s1) language of
               None \<Rightarrow> s1
             | Some posts \<Rightarrow>
                 (let s2 = s1\<lparr>all_posts :=
                                 AList.update language (posts @ [post_data]) (all_posts s1)\<rparr>
                  in case post_count s2 language of
                       None \<Rightarrow> s2
                     | Some n \<Rightarrow>
                         (let s3 = s2\<lparr>post_count := (post_count s2)(language \<mapsto> n + 1)\<rparr>
                          in if (n + 1) mod 5 = 0
                             then save_to_json (PostList (posts @ [post_data]))
                                    (batch_file cfg language (n + 1)) s3
                             else s3))))"

text \<open>The loop over \<^verbatim>\<open>post_links\<close> (lines 339--365). \<open>Inl e\<close> is an exception
  that reaches the handler of the page (line 377).\<close>

fun visit_posts ::
  "('w, 'e) env \<Rightarrow> config \<Rightarrow> string \<Rightarrow> string list \<Rightarrow> 'w analyzer
     \<Rightarrow> (exn + unit) \<times> 'w analyzer" where
  "visit_posts env cfg language [] s = (Inr (), s)"
| "visit_posts env cfg language (post_url # rest) s =
     (case post_count s language of
        None \<Rightarrow> (Inl KeyError, s)
      | Some n \<Rightarrow>
          if n \<ge> max_posts cfg then (Inr (), s)
          else if post_url \<in> visited_urls s then visit_posts env cfg language rest s
          else visit_posts env cfg language rest (process_post env cfg language post_url s))"

text \<open>One pass of the \<^verbatim>\<open>while\<close> loop of \<^verbatim>\<open>scrape_subreddit\<close> (lines 236--379):
  \<open>Some next_url\<close> continues with the next page, \<open>None\<close> is a \<^verbatim>\<open>break\<close>.\<close>

definition scrape_page ::
  "('w, 'e) env \<Rightarrow> config \<Rightarrow> string \<Rightarrow> string \<Rightarrow> 'w analyzer
     \<Rightarrow> string option \<times> 'w analyzer" where
  "scrape_page env cfg language current_url s =
     (if current_url \<in> visited_urls s then (None, s)
      else
        (let s1 = s\<lparr>visited_urls := insert current_url (visited_urls s),
                     trace := Navigated current_url # Added current_url # trace s\<rparr>
         in case load_listing env current_url (world s1) of
              (None, w1) \<Rightarrow> (None, s1\<lparr>world := w1\<rparr>)
            | (Some post_links, w1) \<Rightarrow>
                (case visit_posts env cfg language post_links (s1\<lparr>world := w1\<rparr>) of
                   (Inl e, s2) \<Rightarrow> (None, s2)
                 | (Inr u, s2) \<Rightarrow>
                     (case find_next_page_or_load_more env (world s2) of
                        (next_url, w2) \<Rightarrow>
                          (let s3 = s2\<lparr>world := w2, trace := Resolved next_url # trace s2\<rparr>
                           in if or_empty next_url \<noteq> [] \<and> next_url \<noteq> Some current_url
                              then (next_url, s3)
                              else (None, s3))))))"

text \<open>The \<^verbatim>\<open>while\<close> loop (line 235) with its three conditions, evaluated left to
  right.\<close>

function scrape_loop ::
  "('w, 'e) env \<Rightarrow> config \<Rightarrow> string \<Rightarrow> string \<Rightarrow> int \<Rightarrow> 'w analyzer
     \<Rightarrow> (exn + unit) \<times> 'w analyzer" where
  "scrape_loop env cfg language current_url page_num s =
     (if current_url = [] \<or> \<not> page_num \<le> max_pages cfg then (Inr (), s)
      else
        (case post_count s language of
           None \<Rightarrow> (Inl KeyError, s)
         | Some n \<Rightarrow>
             if \<not> n < max_posts cfg then (Inr (), s)
             else
               (case scrape_page env cfg language current_url s of
                  (None, s1) \<Rightarrow> (Inr (), s1)
                | (Some next_url, s1) \<Rightarrow>
                    scrape_loop env cfg language next_url (page_num + 1) s1)))"
  by pat_completeness auto
termination
  by (relation "measure (\<lambda>(env, cfg, language, current_url, page_num, s).
                   nat (max_pages cfg + 1 - page_num))") auto

declare scrape_loop.simps [simp del]

definition scrape_subreddit ::
  "('w, 'e) env \<Rightarrow> config \<Rightarrow> string \<Rightarrow> string \<Rightarrow> 'w analyzer \<Rightarrow> (exn + unit) \<times> 'w analyzer" where
  "scrape_subreddit env cfg start_url language s = scrape_loop env cfg language start_url 1 s"

section \<open>The top-level run\<close>

text \<open>\<^verbatim>\<open>PROGRAMMING_LANGUAGES\<close> (lines 51--67): key, display name, subreddits.\<close>

definition programming_languages :: "(string \<times> string \<times> string list) list" where
  "programming_languages =
     [(''r'', ''R'', [''rlanguage'', ''Rlanguage'', ''rprogramming'', ''RStudio'', ''statistics'']),
      (''rust'', ''Rust'', [''rust'', ''rust_gamedev'', ''learnrust'']),
      (''go'', ''Go'', [''golang'', ''learngolang''])]"

text \<open>The attributes set by \<^verbatim>\<open>__init__\<close> (lines 96--101).\<close>

definition init_analyzer :: "config \<Rightarrow> 'w \<Rightarrow> 'w analyzer" where
  "init_analyzer cfg w =
     \<lparr>driver = False, world = w, all_posts = [], visited_urls = {},
      post_count = map_of (map (\<lambda>lang. (lang, 0)) (languages cfg)), trace = []\<rparr>"

text \<open>\<^verbatim>\<open>setup_driver\<close> (lines 106--151): \<^verbatim>\<open>self.driver\<close> is assigned once Chrome
  has started; the timeouts and the script injection that follow may still fail.\<close>

definition setup_driver :: "('w, 'e) env \<Rightarrow> 'w analyzer \<Rightarrow> (exn + unit) \<times> 'w analyzer" where
  "setup_driver env s =
     (case chrome_start env (world s) of
        (Inl e, w1) \<Rightarrow> (Inl e, s\<lparr>world := w1\<rparr>)
      | (Inr u, w1) \<Rightarrow>
          (case chrome_configure env w1 of
             (Inl e, w2) \<Rightarrow> (Inl e, s\<lparr>driver := True, world := w2\<rparr>)
           | (Inr u, w2) \<Rightarrow> (Inr (), s\<lparr>driver := True, world := w2\<rparr>)))"

text \<open>Lines 166--170.\<close>

fun init_all_posts :: "string list \<Rightarrow> (string \<times> post list) list \<Rightarrow> (string \<times> post list) list" where
  "init_all_posts [] posts = posts"
| "init_all_posts (lang # rest) posts =
     (if map_of programming_languages lang \<noteq> None
      then init_all_posts rest (AList.update lang [] posts)
      else init_all_posts rest posts)"

text \<open>The loop over the subreddits of one language (lines 181--197).\<close>

fun scrape_subreddits ::
  "('w, 'e) env \<Rightarrow> config \<Rightarrow> string \<Rightarrow> string list \<Rightarrow> 'w analyzer \<Rightarrow> 'w analyzer" where
  "scrape_subreddits env cfg lang [] s = s"
| "scrape_subreddits env cfg lang (subreddit # rest) s =
     (case scrape_subreddit env cfg (''https://www.reddit.com/r/'' @ subreddit @ ''/hot/'') lang s of
        (Inl e, s1) \<Rightarrow> scrape_subreddits env cfg lang rest s1
      | (Inr u, s1) \<Rightarrow>
          (case post_count s1 lang of
             None \<Rightarrow> scrape_subreddits env cfg lang rest s1
           | Some n \<Rightarrow>
               if n \<ge> max_posts cfg then s1 else scrape_subreddits env cfg lang rest s1))"

text \<open>The loop over the languages (lines 173--202).\<close>

fun process_languages ::
  "('w, 'e) env \<Rightarrow> config \<Rightarrow> string list \<Rightarrow> 'w analyzer \<Rightarrow> (exn + unit) \<times> 'w analyzer" where
  "process_languages env cfg [] s = (Inr (), s)"
| "process_languages env cfg (lang # rest) s =
     (case map_of programming_languages lang of
        None \<Rightarrow> process_languages env cfg rest s
      | Some (name, subreddits) \<Rightarrow>
          (let s1 = scrape_subreddits env cfg lang subreddits s
           in case map_of (all_posts s1) lang of
                None \<Rightarrow> (Inl KeyError, s1)
              | Some posts \<Rightarrow>
                  process_languages env cfg rest
                    (save_to_json (PostList posts) (output_dir cfg @ ''/'' @ lang @ ''_posts.json'')
                       s1)))"

text \<open>\<^verbatim>\<open>analyze_all_results\<close> (lines 1035--1080) reads the posts and writes the
  reports; it catches every exception.\<close>

definition analyze_all_results :: "'w analyzer \<Rightarrow> 'w analyzer" where
  "analyze_all_results s = s\<lparr>trace := Analyzed # trace s\<rparr>"

text \<open>The \<^verbatim>\<open>try\<close> block of \<^verbatim>\<open>start_analysis\<close> (lines 163--209).\<close>

definition analysis_body ::
  "('w, 'e) env \<Rightarrow> config \<Rightarrow> 'w analyzer \<Rightarrow> (exn + unit) \<times> 'w analyzer" where
  "analysis_body env cfg s =
     (case setup_driver env s of
        (Inl e, s1) \<Rightarrow> (Inl e, s1)
      | (Inr u, s1) \<Rightarrow>
          (case process_languages env cfg (languages cfg)
                  (s1\<lparr>all_posts := init_all_posts (languages cfg) (all_posts s1)\<rparr>) of
             (Inl e, s2) \<Rightarrow> (Inl e, s2)
           | (Inr u, s2) \<Rightarrow>
               if list_ex (\<lambda>(lang, posts). length posts > 0) (all_posts s2)
               then (Inr (), analyze_all_results s2)
               else (Inr (), s2)))"

text \<open>\<^verbatim>\<open>start_analysis\<close> (lines 160--226): the \<^verbatim>\<open>except\<close> clause writes the
  emergency file, the \<^verbatim>\<open>finally\<close> clause quits the driver if it is set. An
  exception of \<^verbatim>\<open>quit\<close> itself leaves the function.\<close>

definition emergency_save :: "config \<Rightarrow> 'w analyzer \<Rightarrow> 'w analyzer" where
  "emergency_save cfg s =
     save_to_json (AllPosts (all_posts s)) (output_dir cfg @ ''/emergency-save.json'') s"

definition close_driver :: "('w, 'e) env \<Rightarrow> 'w analyzer \<Rightarrow> (exn + unit) \<times> 'w analyzer" where
  "close_driver env s =
     (if driver s
      then (case driver_quit env (world s) of
              (r, w1) \<Rightarrow> (r, s\<lparr>world := w1, trace := Quit # trace s\<rparr>))
      else (Inr (), s))"

definition start_analysis ::
  "('w, 'e) env \<Rightarrow> config \<Rightarrow> 'w analyzer \<Rightarrow> (exn + unit) \<times> 'w analyzer" where
  "start_analysis env cfg s =
     (case analysis_body env cfg s of
        (Inl e, s1) \<Rightarrow> close_driver env (emergency_save cfg s1)
      | (Inr u, s1) \<Rightarrow> close_driver env s1)"

section \<open>Properties of traces and states\<close>

text \<open>The URLs added to \<^verbatim>\<open>visited_urls\<close> and the number of calls of the
  pagination resolver, as logged.\<close>

fun added :: "event list \<Rightarrow> string list" where
  "added [] = []"
| "added (Added url # t) = url # added t"
| "added (e # t) = added t"

fun resolver_calls :: "event list \<Rightarrow> nat" where
  "resolver_calls [] = 0"
| "resolver_calls (Resolved r # t) = Suc (resolver_calls t)"
| "resolver_calls (e # t) = resolver_calls t"

text \<open>The discipline of visits on a trace (newest event first): a URL is added only
  if it was not added before, and a navigation directly follows the addition of its
  URL.\<close>

fun visit_order :: "event list \<Rightarrow> bool" where
  "visit_order [] = True"
| "visit_order (Added url # t) = (url \<notin> set (added t) \<and> visit_order t)"
| "visit_order (Navigated url # t) =
     ((case t of Added v # t' \<Rightarrow> v = url | _ \<Rightarrow> False) \<and> visit_order t)"
| "visit_order (e # t) = visit_order t"

definition visit_inv :: "'w analyzer \<Rightarrow> bool" where
  "visit_inv s = (visited_urls s = set (added (trace s)) \<and> visit_order (trace s))"

text \<open>The counter of a language agrees with the length of its list of posts.\<close>

definition count_inv :: "'w analyzer \<Rightarrow> bool" where
  "count_inv s =
     (\<forall>lang posts. map_of (all_posts s) lang = Some posts
                    \<longrightarrow> post_count s lang = Some (int (length posts)))"

section \<open>Sample sessions\<close>

text \<open>A session of a browser whose world is the current location and whose element
  handles are the texts of the elements. On \<open>quiet_env\<close> no selector matches and
  no script finds anything.\<close>

definition quiet_env :: "(string, string) env" where
  "quiet_env =
     \<lparr>chrome_start = (\<lambda>w. (Inr (), w)),
      chrome_configure = (\<lambda>w. (Inr (), w)),
      driver_get = (\<lambda>url w. (Inr (), url)),
      driver_current_url = (\<lambda>w. (Inr w, w)),
      driver_quit = (\<lambda>w. (Inr (), w)),
      wait_until_present = (\<lambda>selector w. (Inl TimeoutException, w)),
      find_element = (\<lambda>selector w. (Inl NoSuchElementException, w)),
      find_elements = (\<lambda>how selector w. (Inr [], w)),
      element_text = (\<lambda>e w. (Inr e, w)),
      element_get_attribute = (\<lambda>e a w. (Inr None, w)),
      element_tag_name = (\<lambda>e w. (Inr ''a'', w)),
      element_click = (\<lambda>e w. (Inr (), w)),
      element_parent = (\<lambda>e w. (Inl WebDriverException, w)),
      execute_script_unit = (\<lambda>sc w. (Inr (), w)),
      execute_script_bool = (\<lambda>sc w. (Inr False, w)),
      execute_script_text = (\<lambda>sc w. (Inr None, w)),
      execute_script_links = (\<lambda>sc w. (Inr [], w)),
      execute_script_element = (\<lambda>sc w. (Inr None, w)),
      polarity_scores = (\<lambda>t. \<lparr>compound = of_nat (length t) / 100, pos = 1 / 2, neu = 1 / 2,
                                neg = 0\<rparr>),
      now_isoformat = (\<lambda>w. ''2025-01-01T00:00:00''),
      py_hash = (\<lambda>url. 0)\<rparr>"

text \<open>A post page that shows nothing but the heading \<^verbatim>\<open>Hello World\<close>.\<close>

definition hello_env :: "(string, string) env" where
  "hello_env = quiet_env
     \<lparr>find_element := (\<lambda>selector w. if selector = ''h1'' then (Inr ''Hello World'', w)
                                      else (Inl NoSuchElementException, w))\<rparr>"

text \<open>A listing whose next control is a link without a target.\<close>

definition hrefless_env :: "(string, string) env" where
  "hrefless_env = quiet_env
     \<lparr>find_element := (\<lambda>selector w. if selector = ''a.next-button'' then (Inr ''next'', w)
                                      else (Inl NoSuchElementException, w))\<rparr>"

text \<open>Listings that show one post each, found by the script, on a site without
  pagination controls.\<close>

definition paging_env :: "(string, string) env" where
  "paging_env = quiet_env
     \<lparr>wait_until_present := (\<lambda>selector w. (Inr (), w)),
      execute_script_links := (\<lambda>sc w. (Inr [w @ ''comments/p1/first_post/''], w))\<rparr>"

text \<open>A listing with a load-more button that leaves the location unchanged; its
  post pages fail to load.\<close>

definition load_more_env :: "(string, string) env" where
  "load_more_env = paging_env
     \<lparr>driver_get := (\<lambda>url w. if contains url ''/comments/'' then (Inl WebDriverException, w)
                              else (Inr (), url)),
      execute_script_element := (\<lambda>sc w. (Inr (Some ''Load more''), w))\<rparr>"






definition sample_config :: config where
  "sample_config = \<lparr>languages = [''go''], max_pages = 2, max_posts = 20, output_dir = ''output''\<rparr>"

definition sample_post_url :: string where
  "sample_post_url = ''https://www.reddit.com/r/rust/comments/abc123/my_post-title/''"


text \<open>The first three methods of the pagination resolver fall through, leaving the
  world \<open>w3\<close>.\<close>

definition falls_through :: "('w, 'e) env \<Rightarrow> 'w \<Rightarrow> 'w option" where
  "falls_through env w =
     (case next_button env next_button_selectors w of
        (Some r, w1) \<Rightarrow> None
      | (None, w1) \<Rightarrow>
          (case load_more env load_more_selectors w1 of
             (Some url, w2) \<Rightarrow> None
           | (None, w2) \<Rightarrow>
               (case infinite_scroll env w2 of
                  (Some url, w3) \<Rightarrow> None
                | (None, w3) \<Rightarrow> Some w3)))"

text \<open>A session that is lost: the current location cannot be read.\<close>

definition lost_env :: "(string, string) env" where
  "lost_env = quiet_env\<lparr>driver_current_url := (\<lambda>w. (Inl WebDriverException, w))\<rparr>"

definition sample_listing_url :: string where
  "sample_listing_url = ''https://www.reddit.com/r/rust/hot/''"

definition two_page_parameters_url :: string where
  "two_page_parameters_url = ''https://www.reddit.com/r/rust/hot/?page=3&per_page=25''"

text \<open>No counter exceeds the bound on the posts of a language.\<close>

definition bound_inv :: "config \<Rightarrow> 'w analyzer \<Rightarrow> bool" where
  "bound_inv cfg s = (\<forall>lang n. post_count s lang = Some n \<longrightarrow> n \<le> max 0 (max_posts cfg))"

text \<open>The analyzer of \<open>sample_config\<close> after the first loop of
  \<^verbatim>\<open>start_analysis\<close>, and a configuration whose bound on posts is already met.\<close>

definition sample_analyzer :: "string analyzer" where
  "sample_analyzer = (init_analyzer sample_config [])\<lparr>all_posts := [(''go'', [])]\<rparr>"

definition full_config :: config where
  "full_config = sample_config\<lparr>max_posts := 0\<rparr>"

definition sample_go_url :: string where
  "sample_go_url = ''https://www.reddit.com/r/golang/hot/''"

definition short_config :: config where
  "short_config = sample_config\<lparr>max_pages := 1\<rparr>"



section \<open>Sentiment of an item\<close>

text \<open>
  C9. For the empty string and for \<^verbatim>\<open>None\<close>, \<^verbatim>\<open>analyze_sentiment\<close> returns
  the zero vector \<^verbatim>\<open>{'compound': 0, 'pos': 0, 'neu': 0, 'neg': 0}\<close>, whatever the
  analyzer behind it is.
\<close>

theorem analyze_sentiment_empty_input:
  "analyze_sentiment polarity None = \<lparr>compound = 0, pos = 0, neu = 0, neg = 0\<rparr>
   \<and> analyze_sentiment polarity (Some []) = \<lparr>compound = 0, pos = 0, neu = 0, neg = 0\<rparr>"
  by (simp add: analyze_sentiment_def zero_sentiment_def)

theorem analyze_sentiment_empty_input_witness:
  "analyze_sentiment (polarity_scores quiet_env) None
     = \<lparr>compound = 0, pos = 0, neu = 0, neg = 0\<rparr>
   \<and> analyze_sentiment (polarity_scores quiet_env) (Some [])
     = \<lparr>compound = 0, pos = 0, neu = 0, neg = 0\<rparr>"
  by (rule analyze_sentiment_empty_input)

lemma map_of_with_sentiment:
  "map_of (with_sentiment env pd) ''sentiment'' =
     Some (PSent (if get_text pd ''content'' \<noteq> [] then polarity_scores env (get_text pd ''content'')
                  else if get_text pd ''title'' \<noteq> [] then polarity_scores env (get_text pd ''title'')
                  else zero_sentiment))"
  by (simp add: with_sentiment_def update_conv' analyze_sentiment_def)



lemma extract_post_content_Some:
  assumes "fst (extract_post_content env post_url language s) = Some post_data"
  shows "\<exists>w. post_data = fst (fill_post_data env post_url language w)"
  using assms
  by (auto simp: extract_post_content_def Let_def split: if_splits prod.splits sum.splits)
     (metis fst_conv)





section \<open>Fields of an extracted item\<close>




lemma fill_post_data_sentiment_key:
  "\<exists>v. map_of (fst (fill_post_data env post_url language w)) ''sentiment'' = Some (PSent v)"
  by (simp add: fill_post_data_def Let_def case_prod_beta map_of_with_sentiment)













section \<open>Pagination resolver\<close>

lemma resolver_after_fall_through:
  assumes "falls_through env w = Some w3"
  shows "find_next_page_or_load_more env w = url_increment env w3"
  using assms
  by (auto simp: falls_through_def find_next_page_or_load_more_def
           split: prod.splits option.splits)

lemma resolver_returned_early:
  assumes "falls_through env w = None"
  shows "fst (find_next_page_or_load_more env w) = None
           \<longleftrightarrow> fst (next_button env next_button_selectors w) = Some None"
  using assms
  by (auto simp: falls_through_def find_next_page_or_load_more_def
           split: prod.splits option.splits)

lemma next_button_fall_through:
  assumes "falls_through env w = Some w3"
  shows "fst (next_button env next_button_selectors w) = None"
  using assms
  by (auto simp: falls_through_def split: prod.splits option.splits)

lemma url_increment_none:
  "fst (url_increment env w) = None \<longleftrightarrow>
     (case fst (driver_current_url env w) of
        Inl e \<Rightarrow> True
      | Inr current_url \<Rightarrow> isl (next_page_url current_url))"
  by (auto simp: url_increment_def split: prod.splits sum.splits)

text \<open>Where the resolver returns \<^verbatim>\<open>None\<close>: at a next link without target, or when
  the first three methods fall through and the fourth raises, on reading the location
  or on converting the page number.\<close>

lemma resolver_none_iff:
  "fst (find_next_page_or_load_more env w) = None \<longleftrightarrow>
     fst (next_button env next_button_selectors w) = Some None
     \<or> (\<exists>w3. falls_through env w = Some w3
              \<and> (case fst (driver_current_url env w3) of
                    Inl e \<Rightarrow> True
                  | Inr current_url \<Rightarrow> isl (next_page_url current_url)))"
proof (cases "falls_through env w")
  case None
  then show ?thesis by (simp add: resolver_returned_early)
next
  case (Some w3)
  then show ?thesis
    by (simp add: resolver_after_fall_through url_increment_none next_button_fall_through)
qed

text \<open>A lost session: the first three methods fall through and the resolver returns
  \<^verbatim>\<open>None\<close>.\<close>

lemma lost_session_resolver:
  "falls_through lost_env sample_listing_url = Some sample_listing_url
   \<and> find_next_page_or_load_more lost_env sample_listing_url = (None, sample_listing_url)"
  by code_simp

text \<open>
  C2. On a listing whose first enabled next control is a link without a target, no
  disabled control and no failing selector being in the way, the resolver returns
  \<^verbatim>\<open>None\<close> from its first method (line 954) and tries none of the others, although
  the fourth, the URL increment, yields a URL at that location: it returns
  \<^verbatim>\<open>None\<close> where one of its four methods succeeds.
\<close>

theorem resolver_none_with_increment_available:
  "next_button hrefless_env next_button_selectors sample_listing_url
     = (Some None, sample_listing_url)
   \<and> find_next_page_or_load_more hrefless_env sample_listing_url = (None, sample_listing_url)
   \<and> url_increment hrefless_env sample_listing_url
       = (Some ''https://www.reddit.com/r/rust/hot/?page=2'', sample_listing_url)"
  by code_simp

subsection \<open>The URL increment\<close>

text \<open>Where the pattern \<^verbatim>\<open>page=\d+\<close> does not occur, \<^verbatim>\<open>page=2\<close> is appended; where
  it occurs once, with a number that Python converts, its number is replaced by the
  successor.\<close>

lemma next_page_url_append:
  assumes "search_page current_url = None"
  shows "next_page_url current_url =
           Inr (current_url @ (if CHR ''?'' \<in> set current_url then ''&page=2'' else ''?page=2''))"
  using assms by (simp add: next_page_url_def)

lemma sub_page_no_match:
  "search_page s = None \<Longrightarrow> sub_page repl s = s"
  by (induction s) (auto split: if_splits)

lemma head_match_prefix:
  assumes "5 < length a"
  shows "(startswith (a @ b) ''page='' \<and> takeWhile is_digit (drop 5 (a @ b)) \<noteq> [])
         \<longleftrightarrow> (startswith a ''page='' \<and> takeWhile is_digit (drop 5 a) \<noteq> [])"
  using assms by (auto simp: startswith_def takeWhile_eq_Nil_iff)

lemma no_match_before:
  assumes "search_page (pre @ ''page='') = None"
  shows "search_page (pre @ ''page='' @ rest) = search_page (''page='' @ rest)"
    and "sub_page repl (pre @ ''page='' @ rest) = pre @ sub_page repl (''page='' @ rest)"
  using assms
proof (induction pre)
  case Nil
  { case 1 show ?case by simp }
  { case 2 show ?case by simp }
next
  case (Cons c p)
  have len: "5 < length ((c # p) @ ''page='')" by simp
  have eq: "drop 4 (p @ x) = drop 5 ((c # p) @ x)" for x by simp
  { case 1
    from 1 have nm: "\<not> (startswith ((c # p) @ ''page='') ''page=''
                      \<and> takeWhile is_digit (drop 5 ((c # p) @ ''page='')) \<noteq> [])"
      and rest: "search_page (p @ ''page='') = None"
      by (auto split: if_splits)
    from nm head_match_prefix [OF len, of rest]
    have "\<not> (startswith ((c # p) @ ''page='' @ rest) ''page=''
              \<and> takeWhile is_digit (drop 5 ((c # p) @ ''page='' @ rest)) \<noteq> [])"
      by simp
    with Cons.IH(1) [OF rest] show ?case by auto }
  { case 2
    from 2 have nm: "\<not> (startswith ((c # p) @ ''page='') ''page=''
                      \<and> takeWhile is_digit (drop 5 ((c # p) @ ''page='')) \<noteq> [])"
      and rest: "search_page (p @ ''page='') = None"
      by (auto split: if_splits)
    from nm head_match_prefix [OF len, of rest]
    have "\<not> (startswith ((c # p) @ ''page='' @ rest) ''page=''
              \<and> takeWhile is_digit (drop 5 ((c # p) @ ''page='' @ rest)) \<noteq> [])"
      by simp
    with Cons.IH(2) [OF rest] show ?case by auto }
qed

lemma match_at_head:
  assumes "ds \<noteq> []" and "\<forall>c \<in> set ds. is_digit c" and "post = [] \<or> \<not> is_digit (hd post)"
  shows "search_page (''page='' @ ds @ post) = Some ds"
    and "sub_page repl (''page='' @ ds @ post) = repl @ sub_page repl post"
proof -
  from assms(3) have "takeWhile is_digit post = []" "dropWhile is_digit post = post"
    by (auto simp: takeWhile_eq_Nil_iff dropWhile_eq_self_iff)
  with assms(2) have "takeWhile is_digit (ds @ post) = ds" "dropWhile is_digit (ds @ post) = post"
    by (simp_all add: takeWhile_append2 dropWhile_append2)
  with assms(1) show "search_page (''page='' @ ds @ post) = Some ds"
    and "sub_page repl (''page='' @ ds @ post) = repl @ sub_page repl post"
    by (simp_all add: startswith_def)
qed

lemma next_page_url_single_match:
  assumes "search_page (pre @ ''page='') = None"
    and "ds \<noteq> []" and "\<forall>c \<in> set ds. is_digit c"
    and "post = [] \<or> \<not> is_digit (hd post)" and "search_page post = None"
    and "length ds \<le> int_max_str_digits"
    and "length (str_of_nat (int_of_digits ds + 1)) \<le> int_max_str_digits"
  shows "next_page_url (pre @ ''page='' @ ds @ post)
           = Inr (pre @ ''page='' @ str_of_nat (int_of_digits ds + 1) @ post)"
proof -
  have found: "search_page (pre @ ''page='' @ ds @ post) = Some ds"
    using no_match_before(1) [OF assms(1), where rest = "ds @ post"]
          match_at_head(1) [OF assms(2,3,4)]
    by simp
  have "sub_page repl (pre @ ''page='' @ ds @ post) = pre @ repl @ post" for repl
    using no_match_before(2) [OF assms(1), where rest = "ds @ post" and repl = repl]
          match_at_head(2) [OF assms(2,3,4), where repl = repl]
          sub_page_no_match [OF assms(5), where repl = repl]
    by simp
  with found assms(6,7) show ?thesis
    by (simp add: next_page_url_def py_int_def py_str_def)
qed

text \<open>A page number of 4301 digits: the conversion raises.\<close>

lemma next_page_url_too_many_digits:
  "next_page_url (''page='' @ replicate 4301 (CHR ''1'')) = Inl ValueError"
  using match_at_head(1) [of "replicate 4301 (CHR ''1'')" "[]"]
  by (simp add: next_page_url_def py_int_def int_max_str_digits_def is_digit_def)

lemma next_page_url_page_3:
  "next_page_url ''https://www.reddit.com/r/rust/hot/?page=3''
     = Inr ''https://www.reddit.com/r/rust/hot/?page=4''"
  by code_simp

text \<open>
  C8. On a session where the first three methods find nothing, at a location with two
  parameters that match \<^verbatim>\<open>page=\d+\<close>, the resolver rewrites both of them with
  the successor of the first: \<^verbatim>\<open>page=3&per_page=25\<close> becomes
  \<^verbatim>\<open>page=4&per_page=4\<close>, not \<^verbatim>\<open>page=4&per_page=25\<close>.
\<close>

theorem url_increment_rewrites_every_match:
  "falls_through quiet_env two_page_parameters_url = Some two_page_parameters_url
   \<and> find_next_page_or_load_more quiet_env two_page_parameters_url
       = (Some ''https://www.reddit.com/r/rust/hot/?page=4&per_page=4'', two_page_parameters_url)"
  by code_simp

section \<open>Crawl orchestrator: what each step does to the crawl state\<close>

lemma extract_post_content_state:
  assumes "extract_post_content env post_url language s = (r, s1)"
  shows "visited_urls s1 = insert post_url (visited_urls s)"
    and "trace s1 = (if post_url \<in> visited_urls s then trace s
                     else Navigated post_url # Added post_url # trace s)"
    and "all_posts s1 = all_posts s"
    and "post_count s1 = post_count s"
    and "driver s1 = driver s"
  using assms
  by (auto simp: extract_post_content_def Let_def split: if_splits prod.splits sum.splits)

lemma extract_post_content_nonempty:
  assumes "extract_post_content env post_url language s = (Some post_data, s1)"
  shows "post_data \<noteq> []"
proof -
  from assms have "fst (extract_post_content env post_url language s) = Some post_data"
    by simp
  then have "map_of post_data ''sentiment'' \<noteq> None"
    using extract_post_content_Some fill_post_data_sentiment_key by fastforce
  then show ?thesis by auto
qed

lemma visit_inv_fields:
  assumes "visit_inv s" and "visited_urls s' = visited_urls s"
    and "added (trace s') = added (trace s)" and "visit_order (trace s') = visit_order (trace s)"
  shows "visit_inv s'"
  using assms by (simp add: visit_inv_def)





lemma resolver_calls_process_post:
  "resolver_calls (trace (process_post env cfg language post_url s)) = resolver_calls (trace s)"
proof (cases "extract_post_content env post_url language s")
  case (Pair r s1)
  from extract_post_content_state(2) [OF Pair]
  have "resolver_calls (trace s1) = resolver_calls (trace s)" by simp
  then show ?thesis
    using Pair
    by (auto simp: process_post_def Let_def save_to_json_def split: option.splits)
qed

lemma resolver_calls_visit_posts:
  "resolver_calls (trace (snd (visit_posts env cfg language post_links s)))
     = resolver_calls (trace s)"
  by (induction post_links arbitrary: s)
     (auto simp: resolver_calls_process_post split: option.splits)





lemma resolver_calls_scrape_page:
  "resolver_calls (trace (snd (scrape_page env cfg language current_url s)))
     \<le> Suc (resolver_calls (trace s))"
  by (auto simp: scrape_page_def Let_def case_prod_beta resolver_calls_visit_posts
           split: option.splits sum.splits)

lemma resolver_calls_scrape_loop:
  "resolver_calls (trace (snd (scrape_loop env cfg language current_url page_num s)))
     \<le> resolver_calls (trace s) + nat (max_pages cfg + 1 - page_num)"
proof (induction env cfg language current_url page_num s rule: scrape_loop.induct)
  case (1 env cfg language current_url page_num s)
  have page: "resolver_calls (trace (snd (scrape_page env cfg language current_url s)))
                \<le> Suc (resolver_calls (trace s))"
    by (rule resolver_calls_scrape_page)
  show ?case
  proof (cases "scrape_page env cfg language current_url s")
    case (Pair r s1)
    with page have s1: "resolver_calls (trace s1) \<le> Suc (resolver_calls (trace s))" by simp
    show ?thesis
    proof (cases "current_url = [] \<or> \<not> page_num \<le> max_pages cfg")
      case True
      then show ?thesis by (subst scrape_loop.simps) simp
    next
      case guard: False
      then have step: "nat (max_pages cfg + 1 - page_num)
                         = Suc (nat (max_pages cfg + 1 - (page_num + 1)))"
        by arith
      show ?thesis
      proof (cases "post_count s language")
        case None
        with guard show ?thesis by (subst scrape_loop.simps) simp
      next
        case (Some n)
        show ?thesis
        proof (cases "n < max_posts cfg")
          case False
          with guard Some show ?thesis by (subst scrape_loop.simps) simp
        next
          case True
          show ?thesis
          proof (cases r)
            case None
            with guard Some True Pair s1 step show ?thesis
              by (subst scrape_loop.simps) simp
          next
            case next_url: (Some u)
            have "resolver_calls (trace (snd (scrape_loop env cfg language u (page_num + 1) s1)))
                    \<le> resolver_calls (trace s1) + nat (max_pages cfg + 1 - (page_num + 1))"
              using "1.IH" [OF guard Some _ Pair [symmetric] next_url] True by simp
            with guard Some True Pair next_url s1 step show ?thesis
              by (subst scrape_loop.simps) simp
          qed
        qed
      qed
    qed
  qed
qed

section \<open>Bound on pagination\<close>

lemma paging_run:
  "resolver_calls (trace (snd (scrape_subreddit paging_env sample_config
       ''https://www.reddit.com/r/golang/hot/'' ''go'' (init_analyzer sample_config [])))) = 2"
  by code_simp

text \<open>
  C3. One call of \<^verbatim>\<open>scrape_subreddit\<close> calls the pagination resolver at most
  \<^verbatim>\<open>max_pages\<close> times, whatever the session answers: also when every call of
  the resolver returns a URL not seen before. The loop is a total function, by the
  page counter.
\<close>

theorem pagination_bounded:
  "resolver_calls (trace (snd (scrape_subreddit env cfg start_url language s)))
     \<le> resolver_calls (trace s) + nat (max_pages cfg)"
  using resolver_calls_scrape_loop [of env cfg language start_url 1 s]
  by (simp add: scrape_subreddit_def)

text \<open>On a site where the resolver finds a new URL each time, with
  \<^verbatim>\<open>max_pages = 2\<close>, the resolver is called twice.\<close>

theorem pagination_bounded_witness:
  "resolver_calls (trace (snd (scrape_subreddit paging_env sample_config
       ''https://www.reddit.com/r/golang/hot/'' ''go'' (init_analyzer sample_config [])))) = 2
   \<and> resolver_calls (trace (init_analyzer sample_config ([] :: string)))
         + nat (max_pages sample_config) = 2"
  using pagination_bounded [of paging_env sample_config
          "''https://www.reddit.com/r/golang/hot/''" "''go''" "init_analyzer sample_config []"]
        paging_run
  by (simp add: init_analyzer_def sample_config_def)









section \<open>Visited URLs\<close>





section \<open>Counters and lists of posts\<close>

lemma count_inv_fields:
  assumes "count_inv s" and "all_posts s' = all_posts s" and "post_count s' = post_count s"
  shows "count_inv s'"
  using assms by (simp add: count_inv_def)

lemma count_inv_append:
  assumes "count_inv s" and "map_of (all_posts s) language = Some posts"
    and "post_count s language = Some n"
  shows "count_inv (s\<lparr>all_posts := AList.update language (posts @ [post_data]) (all_posts s),
                      post_count := (post_count s)(language \<mapsto> n + 1)\<rparr>)"
proof -
  from assms have "n = int (length posts)"
    by (auto simp: count_inv_def)
  with assms(1) show ?thesis
    by (auto simp: count_inv_def update_conv')
qed

lemma process_post_append:
  assumes "extract_post_content env post_url language s = (Some post_data, s1)"
    and "map_of (all_posts s) language = Some posts"
    and "post_count s language = Some n"
  shows "map_of (all_posts (process_post env cfg language post_url s)) language
           = Some (posts @ [post_data])"
    and "post_count (process_post env cfg language post_url s) language = Some (n + 1)"
  using assms extract_post_content_state(3,4) [OF assms(1)]
        extract_post_content_nonempty [OF assms(1)]
  by (auto simp: process_post_def Let_def save_to_json_def update_conv')

lemma process_post_nothing:
  assumes "extract_post_content env post_url language s = (None, s1)"
  shows "all_posts (process_post env cfg language post_url s) = all_posts s"
    and "post_count (process_post env cfg language post_url s) = post_count s"
  using assms extract_post_content_state(3,4) [OF assms]
  by (auto simp: process_post_def)

lemma count_inv_process_post:
  assumes "count_inv s"
  shows "count_inv (process_post env cfg language post_url s)"
proof (cases "extract_post_content env post_url language s")
  case (Pair r s1)
  from extract_post_content_state(3,4) [OF Pair] assms have s1: "count_inv s1"
    by (simp add: count_inv_def)
  show ?thesis
  proof (cases r)
    case None
    with Pair s1 show ?thesis by (simp add: process_post_def)
  next
    case (Some post_data)
    show ?thesis
    proof (cases "map_of (all_posts s1) language")
      case None
      with Pair Some s1 show ?thesis by (simp add: process_post_def)
    next
      case posts: (Some posts)
      with s1 have n: "post_count s1 language = Some (int (length posts))"
        by (auto simp: count_inv_def)
      from count_inv_append [OF s1 posts n, of post_data]
      show ?thesis
        using Pair Some posts n s1
        by (auto simp: process_post_def Let_def save_to_json_def count_inv_def)
    qed
  qed
qed

lemma count_inv_visit_posts:
  assumes "count_inv s"
  shows "count_inv (snd (visit_posts env cfg language post_links s))"
  using assms
  by (induction post_links arbitrary: s)
     (auto simp: count_inv_process_post split: option.splits)

lemma count_inv_scrape_page:
  assumes "count_inv s"
  shows "count_inv (snd (scrape_page env cfg language current_url s))"
proof -
  have "count_inv (s\<lparr>visited_urls := v, trace := t, world := w\<rparr>)" for v t w
    using assms by (simp add: count_inv_def)
  then have "count_inv (snd (visit_posts env cfg language post_links
               (s\<lparr>visited_urls := v, trace := t, world := w\<rparr>)))" for v t w post_links
    by (rule count_inv_visit_posts)
  then show ?thesis
    using assms
    by (auto simp: scrape_page_def Let_def case_prod_beta count_inv_def
             split: option.splits sum.splits)
qed

lemma count_inv_scrape_loop:
  assumes "count_inv s"
  shows "count_inv (snd (scrape_loop env cfg language current_url page_num s))"
  using assms
proof (induction env cfg language current_url page_num s rule: scrape_loop.induct)
  case (1 env cfg language current_url page_num s)
  have page: "count_inv (snd (scrape_page env cfg language current_url s))"
    using "1.prems" by (rule count_inv_scrape_page)
  show ?case
  proof (cases "scrape_page env cfg language current_url s")
    case (Pair r s1)
    with page have s1: "count_inv s1" by simp
    show ?thesis
      using "1.prems" "1.IH" Pair s1
      by (subst scrape_loop.simps) (auto split: option.splits)
  qed
qed

lemma count_inv_scrape_subreddits:
  assumes "count_inv s"
  shows "count_inv (scrape_subreddits env cfg lang subreddits s)"
  using assms
proof (induction subreddits arbitrary: s)
  case Nil
  then show ?case by simp
next
  case (Cons subreddit rest)
  have "count_inv (snd (scrape_subreddit env cfg
          (''https://www.reddit.com/r/'' @ subreddit @ ''/hot/'') lang s))"
    unfolding scrape_subreddit_def using Cons.prems by (rule count_inv_scrape_loop)
  with Cons.IH show ?case
    by (auto split: prod.splits sum.splits option.splits)
qed

lemma count_inv_save: "count_inv (save_to_json d f s) = count_inv s"
  by (simp add: count_inv_def save_to_json_def)

lemma count_inv_process_languages:
  assumes "count_inv s"
  shows "count_inv (snd (process_languages env cfg langs s))"
  using assms
proof (induction langs arbitrary: s)
  case Nil
  then show ?case by simp
next
  case (Cons lang rest)
  show ?case
  proof (cases "map_of programming_languages lang")
    case None
    with Cons show ?thesis by simp
  next
    case (Some entry)
    obtain name subreddits where entry: "entry = (name, subreddits)" by (cases entry)
    have "count_inv (scrape_subreddits env cfg lang subreddits s)"
      using Cons.prems by (rule count_inv_scrape_subreddits)
    then show ?thesis
      using Some entry Cons.IH
      by (auto simp: Let_def count_inv_save split: option.splits)
  qed
qed

lemma process_post_count:
  "post_count (process_post env cfg language post_url s) = post_count s
   \<or> (\<exists>n. post_count s language = Some n
          \<and> post_count (process_post env cfg language post_url s)
              = (post_count s)(language \<mapsto> n + 1))"
proof (cases "extract_post_content env post_url language s")
  case (Pair r s1)
  from extract_post_content_state(4) [OF Pair] show ?thesis
    using Pair
    by (auto simp: process_post_def Let_def save_to_json_def split: option.splits)
qed

lemma bound_inv_process_post:
  assumes "bound_inv cfg s" and "post_count s language = Some n" and "n < max_posts cfg"
  shows "bound_inv cfg (process_post env cfg language post_url s)"
  using assms process_post_count [of env cfg language post_url s]
  by (auto simp: bound_inv_def split: if_splits)

lemma bound_inv_visit_posts:
  assumes "bound_inv cfg s"
  shows "bound_inv cfg (snd (visit_posts env cfg language post_links s))"
  using assms
proof (induction post_links arbitrary: s)
  case Nil
  then show ?case by simp
next
  case (Cons post_url rest)
  show ?case
  proof (cases "post_count s language")
    case None
    with Cons.prems show ?thesis by simp
  next
    case (Some n)
    show ?thesis
    proof (cases "n < max_posts cfg")
      case False
      with Some Cons.prems show ?thesis by simp
    next
      case True
      with Cons.prems Some
      have "bound_inv cfg (process_post env cfg language post_url s)"
        by (intro bound_inv_process_post)
      with Cons.IH Cons.prems Some True show ?thesis by simp
    qed
  qed
qed

lemma bound_inv_scrape_page:
  assumes "bound_inv cfg s"
  shows "bound_inv cfg (snd (scrape_page env cfg language current_url s))"
proof -
  have "bound_inv cfg (s\<lparr>visited_urls := v, trace := t, world := w\<rparr>)" for v t w
    using assms by (simp add: bound_inv_def)
  then have "bound_inv cfg (snd (visit_posts env cfg language post_links
               (s\<lparr>visited_urls := v, trace := t, world := w\<rparr>)))" for v t w post_links
    by (rule bound_inv_visit_posts)
  then show ?thesis
    using assms
    by (auto simp: scrape_page_def Let_def case_prod_beta bound_inv_def
             split: option.splits sum.splits)
qed

lemma bound_inv_scrape_loop:
  assumes "bound_inv cfg s"
  shows "bound_inv cfg (snd (scrape_loop env cfg language current_url page_num s))"
  using assms
proof (induction env cfg language current_url page_num s rule: scrape_loop.induct)
  case (1 env cfg language current_url page_num s)
  have page: "bound_inv cfg (snd (scrape_page env cfg language current_url s))"
    using "1.prems" by (rule bound_inv_scrape_page)
  show ?case
  proof (cases "scrape_page env cfg language current_url s")
    case (Pair r s1)
    with page have s1: "bound_inv cfg s1" by simp
    show ?thesis
      using "1.prems" "1.IH" Pair s1
      by (subst scrape_loop.simps) (auto split: option.splits)
  qed
qed

lemma bound_inv_scrape_subreddits:
  assumes "bound_inv cfg s"
  shows "bound_inv cfg (scrape_subreddits env cfg lang subreddits s)"
  using assms
proof (induction subreddits arbitrary: s)
  case Nil
  then show ?case by simp
next
  case (Cons subreddit rest)
  have "bound_inv cfg (snd (scrape_subreddit env cfg
          (''https://www.reddit.com/r/'' @ subreddit @ ''/hot/'') lang s))"
    unfolding scrape_subreddit_def using Cons.prems by (rule bound_inv_scrape_loop)
  with Cons.IH show ?case
    by (auto split: prod.splits sum.splits option.splits)
qed

lemma bound_inv_save: "bound_inv cfg (save_to_json d f s) = bound_inv cfg s"
  by (simp add: bound_inv_def save_to_json_def)

lemma bound_inv_process_languages:
  assumes "bound_inv cfg s"
  shows "bound_inv cfg (snd (process_languages env cfg langs s))"
  using assms
proof (induction langs arbitrary: s)
  case Nil
  then show ?case by simp
next
  case (Cons lang rest)
  show ?case
  proof (cases "map_of programming_languages lang")
    case None
    with Cons show ?thesis by simp
  next
    case (Some entry)
    obtain name subreddits where entry: "entry = (name, subreddits)" by (cases entry)
    have "bound_inv cfg (scrape_subreddits env cfg lang subreddits s)"
      using Cons.prems by (rule bound_inv_scrape_subreddits)
    then show ?thesis
      using Some entry Cons.IH
      by (auto simp: Let_def bound_inv_save split: option.splits)
  qed
qed

text \<open>The state after \<^verbatim>\<open>__init__\<close> and the first loop of \<^verbatim>\<open>start_analysis\<close>.\<close>

lemma map_of_constant:
  "map_of (map (\<lambda>k. (k, c)) ks) k = (if k \<in> set ks then Some c else None)"
  by (induction ks) auto

lemma map_of_init_all_posts:
  "map_of (init_all_posts langs posts) lang =
     (if lang \<in> set langs \<and> map_of programming_languages lang \<noteq> None then Some []
      else map_of posts lang)"
  by (induction langs arbitrary: posts) (auto simp: update_conv')

lemma setup_driver_state:
  "all_posts (snd (setup_driver env s)) = all_posts s"
  "post_count (snd (setup_driver env s)) = post_count s"
  "visited_urls (snd (setup_driver env s)) = visited_urls s"
  "trace (snd (setup_driver env s)) = trace s"
  "driver (snd (setup_driver env s)) = (driver s \<or> \<not> isl (fst (chrome_start env (world s))))"
  by (auto simp: setup_driver_def split: prod.splits sum.splits)

lemma count_inv_started:
  "count_inv ((snd (setup_driver env (init_analyzer cfg w)))
     \<lparr>all_posts := init_all_posts (languages cfg)
                     (all_posts (snd (setup_driver env (init_analyzer cfg w))))\<rparr>)"
  by (auto simp: count_inv_def setup_driver_state init_analyzer_def map_of_constant
                 map_of_init_all_posts split: if_splits)

lemma bound_inv_started:
  "bound_inv cfg ((snd (setup_driver env (init_analyzer cfg w)))\<lparr>all_posts := p\<rparr>)"
  by (auto simp: bound_inv_def setup_driver_state init_analyzer_def map_of_constant
           split: if_splits)

lemma analysis_body_state:
  "snd (analysis_body env cfg s) = snd (setup_driver env s)
   \<or> (\<exists>s2. s2 = snd (process_languages env cfg (languages cfg)
               ((snd (setup_driver env s))
                  \<lparr>all_posts := init_all_posts (languages cfg)
                                  (all_posts (snd (setup_driver env s)))\<rparr>))
           \<and> (snd (analysis_body env cfg s) = s2
                \<or> snd (analysis_body env cfg s) = analyze_all_results s2))"
  by (auto simp: analysis_body_def split: prod.splits sum.splits)

lemma count_bound_analysis_body:
  "count_inv (snd (analysis_body env cfg (init_analyzer cfg w)))
   \<and> bound_inv cfg (snd (analysis_body env cfg (init_analyzer cfg w)))"
proof -
  let ?s0 = "init_analyzer cfg w"
  let ?s1 = "(snd (setup_driver env ?s0))
               \<lparr>all_posts := init_all_posts (languages cfg)
                               (all_posts (snd (setup_driver env ?s0)))\<rparr>"
  let ?s2 = "snd (process_languages env cfg (languages cfg) ?s1)"
  have a: "count_inv (snd (setup_driver env ?s0))"
    by (simp add: count_inv_def setup_driver_state init_analyzer_def)
  have b: "bound_inv cfg (snd (setup_driver env ?s0))"
    using bound_inv_started [where p = "all_posts (snd (setup_driver env ?s0))"
                               and cfg = cfg and env = env and w = w] by simp
  have c: "count_inv ?s2" by (intro count_inv_process_languages count_inv_started)
  have d: "bound_inv cfg ?s2" by (intro bound_inv_process_languages bound_inv_started)
  have e: "count_inv (analyze_all_results ?s2)" "bound_inv cfg (analyze_all_results ?s2)"
    using c d by (simp_all add: count_inv_def bound_inv_def analyze_all_results_def)
  from analysis_body_state [of env cfg ?s0] a b c d e show ?thesis by auto
qed

lemma close_driver_state:
  "all_posts (snd (close_driver env s)) = all_posts s"
  "post_count (snd (close_driver env s)) = post_count s"
  "driver (snd (close_driver env s)) = driver s"
  "trace (snd (close_driver env s)) = (if driver s then Quit # trace s else trace s)"
  by (auto simp: close_driver_def split: prod.splits)

lemma count_bound_start_analysis:
  "count_inv (snd (start_analysis env cfg (init_analyzer cfg w)))
   \<and> bound_inv cfg (snd (start_analysis env cfg (init_analyzer cfg w)))"
  using count_bound_analysis_body [of env cfg w]
  by (auto simp: start_analysis_def emergency_save_def save_to_json_def count_inv_def
                 bound_inv_def close_driver_state
           split: prod.splits sum.splits)

section \<open>Counter and list of posts of a language\<close>

lemma visit_posts_full:
  assumes "post_count s language = Some n" and "max_posts cfg \<le> n"
  shows "visit_posts env cfg language post_links s = (Inr (), s)"
  using assms by (cases post_links) simp_all

lemma scrape_subreddit_full:
  assumes "post_count s language = Some n" and "max_posts cfg \<le> n"
  shows "scrape_subreddit env cfg start_url language s = (Inr (), s)"
  using assms unfolding scrape_subreddit_def by (subst scrape_loop.simps) simp

lemma hello_go_run:
  "fst (extract_post_content hello_env sample_post_url ''go'' sample_analyzer)
     = Some [(''post_id'', PStr ''abc123''), (''post_url'', PStr sample_post_url),
             (''language'', PStr ''go''), (''scraped_at'', PStr ''2025-01-01T00:00:00''),
             (''title'', PStr ''Hello World''), (''author'', PStr ''Unknown''),
             (''subreddit'', PStr ''r/rust''), (''post_date'', PStr ''Unknown Date''),
             (''content'', PStr []),
             (''sentiment'', PSent \<lparr>compound = 11 / 100, pos = 1 / 2, neu = 1 / 2, neg = 0\<rparr>)]"
  by code_simp

lemma paging_counts:
  "map (\<lambda>(lang, posts). (lang, length posts))
       (all_posts (snd (start_analysis paging_env short_config (init_analyzer short_config []))))
     = [(''go'', 2)]
   \<and> post_count (snd (start_analysis paging_env short_config (init_analyzer short_config [])))
        ''go'' = Some 2"
  by code_simp

text \<open>
  C5. At the end of a run of \<^verbatim>\<open>start_analysis\<close> on a fresh analyzer, and after
  every call of \<^verbatim>\<open>scrape_subreddit\<close> and every pass of the loop over the post
  links from a state where it holds, \<^verbatim>\<open>post_count[language]\<close> is the length of
  \<^verbatim>\<open>all_posts[language]\<close> for every language that has a list. A successful
  extraction appends exactly the extracted item and adds one to the counter. Once the
  counter has reached \<^verbatim>\<open>max_posts\<close> neither the loop over the post links nor
  \<^verbatim>\<open>scrape_subreddit\<close> changes anything, and no counter of a run exceeds
  \<^verbatim>\<open>max_posts\<close> (or 0 if that is negative).
\<close>

theorem counter_is_length:
  "count_inv (snd (start_analysis env cfg (init_analyzer cfg w)))
   \<and> bound_inv cfg (snd (start_analysis env cfg (init_analyzer cfg w)))
   \<and> (count_inv s \<longrightarrow>
        count_inv (snd (scrape_subreddit env cfg start_url language s))
        \<and> count_inv (process_post env cfg language post_url s))
   \<and> (fst (extract_post_content env post_url language s) = Some post_data
        \<and> map_of (all_posts s) language = Some posts \<and> post_count s language = Some n \<longrightarrow>
        map_of (all_posts (process_post env cfg language post_url s)) language
          = Some (posts @ [post_data])
        \<and> post_count (process_post env cfg language post_url s) language = Some (n + 1))
   \<and> (post_count s language = Some n \<and> max_posts cfg \<le> n \<longrightarrow>
        visit_posts env cfg language post_links s = (Inr (), s)
        \<and> scrape_subreddit env cfg start_url language s = (Inr (), s))"
proof -
  have step: "map_of (all_posts (process_post env cfg language post_url s)) language
                = Some (posts @ [post_data])
              \<and> post_count (process_post env cfg language post_url s) language = Some (n + 1)"
    if "fst (extract_post_content env post_url language s) = Some post_data"
      and "map_of (all_posts s) language = Some posts" and "post_count s language = Some n"
  proof -
    from that(1) have "extract_post_content env post_url language s
        = (Some post_data, snd (extract_post_content env post_url language s))"
      by (metis prod.collapse)
    from process_post_append [OF this that(2,3)] show ?thesis by simp
  qed
  have inv: "count_inv (snd (scrape_subreddit env cfg start_url language s))
             \<and> count_inv (process_post env cfg language post_url s)" if "count_inv s"
    using that by (simp add: scrape_subreddit_def count_inv_scrape_loop count_inv_process_post)
  show ?thesis
    using count_bound_start_analysis [of env cfg w] step inv
          visit_posts_full [of s language n cfg env post_links]
          scrape_subreddit_full [of s language n cfg env start_url]
    by blast
qed

text \<open>The counter after a sample run, one extraction from the heading page, and a
  configuration whose bound is met before the crawl starts.\<close>

theorem counter_is_length_witness:
  "count_inv (snd (start_analysis paging_env short_config (init_analyzer short_config [])))
   \<and> bound_inv short_config
        (snd (start_analysis paging_env short_config (init_analyzer short_config [])))
   \<and> map (\<lambda>(lang, posts). (lang, length posts))
       (all_posts (snd (start_analysis paging_env short_config (init_analyzer short_config []))))
     = [(''go'', 2)]
   \<and> post_count (snd (start_analysis paging_env short_config (init_analyzer short_config [])))
        ''go'' = Some 2
   \<and> count_inv sample_analyzer
   \<and> count_inv (snd (scrape_subreddit hello_env sample_config sample_go_url ''go''
                        sample_analyzer))
   \<and> map_of (all_posts sample_analyzer) ''go'' = Some []
   \<and> post_count sample_analyzer ''go'' = Some 0
   \<and> map_of (all_posts (process_post hello_env sample_config ''go'' sample_post_url
                          sample_analyzer)) ''go''
       = Some [[(''post_id'', PStr ''abc123''), (''post_url'', PStr sample_post_url),
             (''language'', PStr ''go''), (''scraped_at'', PStr ''2025-01-01T00:00:00''),
             (''title'', PStr ''Hello World''), (''author'', PStr ''Unknown''),
             (''subreddit'', PStr ''r/rust''), (''post_date'', PStr ''Unknown Date''),
             (''content'', PStr []),
             (''sentiment'', PSent \<lparr>compound = 11 / 100, pos = 1 / 2, neu = 1 / 2, neg = 0\<rparr>)]]
   \<and> post_count (process_post hello_env sample_config ''go'' sample_post_url sample_analyzer)
        ''go'' = Some 1
   \<and> max_posts full_config \<le> 0
   \<and> visit_posts hello_env full_config ''go'' [sample_post_url] sample_analyzer
       = (Inr (), sample_analyzer)
   \<and> scrape_subreddit hello_env full_config sample_go_url ''go'' sample_analyzer
       = (Inr (), sample_analyzer)"
proof -
  have inv0: "count_inv sample_analyzer"
    by (simp add: count_inv_def sample_analyzer_def init_analyzer_def sample_config_def)
  have posts0: "map_of (all_posts sample_analyzer) ''go'' = Some []"
    by (simp add: sample_analyzer_def)
  have count0: "post_count sample_analyzer ''go'' = Some 0"
    by (simp add: sample_analyzer_def init_analyzer_def sample_config_def)
  have full: "max_posts full_config \<le> 0"
    by (simp add: full_config_def)
  from counter_is_length [where env = paging_env and cfg = short_config and w = "[]"]
  have run: "count_inv (snd (start_analysis paging_env short_config
                               (init_analyzer short_config [])))
             \<and> bound_inv short_config (snd (start_analysis paging_env short_config
                               (init_analyzer short_config [])))"
    by blast
  from counter_is_length [where env = hello_env and cfg = sample_config and s = sample_analyzer
         and start_url = sample_go_url and language = "''go''" and post_url = sample_post_url
         and posts = "[]" and n = 0 and post_links = "[sample_post_url]"
         and post_data = "[(''post_id'', PStr ''abc123''), (''post_url'', PStr sample_post_url),
             (''language'', PStr ''go''), (''scraped_at'', PStr ''2025-01-01T00:00:00''),
             (''title'', PStr ''Hello World''), (''author'', PStr ''Unknown''),
             (''subreddit'', PStr ''r/rust''), (''post_date'', PStr ''Unknown Date''),
             (''content'', PStr []),
             (''sentiment'', PSent \<lparr>compound = 11 / 100, pos = 1 / 2, neu = 1 / 2, neg = 0\<rparr>)]"]
       inv0 posts0 count0 hello_go_run
  have step: "count_inv (snd (scrape_subreddit hello_env sample_config sample_go_url ''go''
                          sample_analyzer))
     \<and> map_of (all_posts (process_post hello_env sample_config ''go'' sample_post_url
                          sample_analyzer)) ''go''
       = Some [[(''post_id'', PStr ''abc123''), (''post_url'', PStr sample_post_url),
             (''language'', PStr ''go''), (''scraped_at'', PStr ''2025-01-01T00:00:00''),
             (''title'', PStr ''Hello World''), (''author'', PStr ''Unknown''),
             (''subreddit'', PStr ''r/rust''), (''post_date'', PStr ''Unknown Date''),
             (''content'', PStr []),
             (''sentiment'', PSent \<lparr>compound = 11 / 100, pos = 1 / 2, neu = 1 / 2, neg = 0\<rparr>)]]
     \<and> post_count (process_post hello_env sample_config ''go'' sample_post_url sample_analyzer)
        ''go'' = Some 1"
    by simp
  from counter_is_length [where env = hello_env and cfg = full_config and s = sample_analyzer
         and start_url = sample_go_url and language = "''go''" and n = 0
         and post_links = "[sample_post_url]"]
       count0 full
  have stop: "visit_posts hello_env full_config ''go'' [sample_post_url] sample_analyzer
       = (Inr (), sample_analyzer)
     \<and> scrape_subreddit hello_env full_config sample_go_url ''go'' sample_analyzer
       = (Inr (), sample_analyzer)"
    by simp
  from run paging_counts inv0 posts0 count0 full step stop show ?thesis by simp
qed

section \<open>Release of the session\<close>










section \<open>A next location equal to the current one\<close>

lemma load_more_listing:
  "load_listing load_more_env sample_go_url (world sample_analyzer)
     = (Some [''https://www.reddit.com/r/golang/hot/comments/p1/first_post/''], sample_go_url)"
  by code_simp

lemma load_more_visit:
  "fst (visit_posts load_more_env sample_config ''go''
          [''https://www.reddit.com/r/golang/hot/comments/p1/first_post/'']
          (sample_analyzer\<lparr>visited_urls := insert sample_go_url (visited_urls sample_analyzer),
                            trace := Navigated sample_go_url # Added sample_go_url
                                       # trace sample_analyzer,
                            world := sample_go_url\<rparr>)) = Inr ()
   \<and> world (snd (visit_posts load_more_env sample_config ''go''
          [''https://www.reddit.com/r/golang/hot/comments/p1/first_post/'']
          (sample_analyzer\<lparr>visited_urls := insert sample_go_url (visited_urls sample_analyzer),
                            trace := Navigated sample_go_url # Added sample_go_url
                                       # trace sample_analyzer,
                            world := sample_go_url\<rparr>))) = sample_go_url
   \<and> trace (snd (visit_posts load_more_env sample_config ''go''
          [''https://www.reddit.com/r/golang/hot/comments/p1/first_post/'']
          (sample_analyzer\<lparr>visited_urls := insert sample_go_url (visited_urls sample_analyzer),
                            trace := Navigated sample_go_url # Added sample_go_url
                                       # trace sample_analyzer,
                            world := sample_go_url\<rparr>)))
       = [Navigated ''https://www.reddit.com/r/golang/hot/comments/p1/first_post/'',
          Added ''https://www.reddit.com/r/golang/hot/comments/p1/first_post/'',
          Navigated sample_go_url, Added sample_go_url]"
  by code_simp

lemma load_more_resolver:
  "find_next_page_or_load_more load_more_env sample_go_url = (Some sample_go_url, sample_go_url)"
  by code_simp

text \<open>
  C10. In a pass of the loop of \<^verbatim>\<open>scrape_subreddit\<close> that reaches the pagination
  resolver, if the resolver returns the URL the pass was started with, the loop ends
  there: \<^verbatim>\<open>scrape_subreddit\<close> returns with the state in which the resolver left
  it, without fetching the location again.
\<close>

theorem same_location_ends_pagination:
  assumes "current_url \<noteq> []" and "page_num \<le> max_pages cfg"
    and "post_count s language = Some n" and "n < max_posts cfg"
    and "current_url \<notin> visited_urls s"
    and "load_listing env current_url (world s) = (Some post_links, w1)"
    and "visit_posts env cfg language post_links
           (s\<lparr>visited_urls := insert current_url (visited_urls s),
              trace := Navigated current_url # Added current_url # trace s,
              world := w1\<rparr>) = (Inr (), s2)"
    and "find_next_page_or_load_more env (world s2) = (Some current_url, w2)"
  shows "scrape_loop env cfg language current_url page_num s
           = (Inr (), s2\<lparr>world := w2, trace := Resolved (Some current_url) # trace s2\<rparr>)"
proof -
  have "scrape_page env cfg language current_url s
          = (None, s2\<lparr>world := w2, trace := Resolved (Some current_url) # trace s2\<rparr>)"
    using assms(5-8) by (simp add: scrape_page_def Let_def)
  with assms(1-4) show ?thesis
    by (subst scrape_loop.simps) simp
qed

text \<open>A listing with a load-more button that leaves the location as it is: one page
  is fetched, the resolver answers with the same location, and the crawl of the
  subreddit is over.\<close>

theorem same_location_ends_pagination_witness:
  "trace (snd (scrape_loop load_more_env sample_config ''go'' sample_go_url 1 sample_analyzer))
     = [Resolved (Some sample_go_url),
        Navigated ''https://www.reddit.com/r/golang/hot/comments/p1/first_post/'',
        Added ''https://www.reddit.com/r/golang/hot/comments/p1/first_post/'',
        Navigated sample_go_url, Added sample_go_url]
   \<and> fst (scrape_loop load_more_env sample_config ''go'' sample_go_url 1 sample_analyzer)
     = Inr ()"
proof -
  let ?s1 = "sample_analyzer\<lparr>visited_urls := insert sample_go_url (visited_urls sample_analyzer),
                            trace := Navigated sample_go_url # Added sample_go_url
                                       # trace sample_analyzer,
                            world := sample_go_url\<rparr>"
  let ?links = "[''https://www.reddit.com/r/golang/hot/comments/p1/first_post/'']"
  let ?s2 = "snd (visit_posts load_more_env sample_config ''go'' ?links ?s1)"
  have a1: "sample_go_url \<noteq> []" by (simp add: sample_go_url_def)
  have a2: "1 \<le> max_pages sample_config" by (simp add: sample_config_def)
  have a3: "post_count sample_analyzer ''go'' = Some 0"
    by (simp add: sample_analyzer_def init_analyzer_def sample_config_def)
  have a4: "0 < max_posts sample_config" by (simp add: sample_config_def)
  have a5: "sample_go_url \<notin> visited_urls sample_analyzer"
    by (simp add: sample_analyzer_def init_analyzer_def)
  have a7: "visit_posts load_more_env sample_config ''go'' ?links ?s1 = (Inr (), ?s2)"
    using load_more_visit by (metis prod.collapse)
  have a8: "find_next_page_or_load_more load_more_env (world ?s2)
              = (Some sample_go_url, sample_go_url)"
    using load_more_visit load_more_resolver by simp
  from same_location_ends_pagination [OF a1 a2 a3 a4 a5 load_more_listing a7 a8]
       load_more_visit
  show ?thesis by simp
qed

end
